theory Spec2Isabelle
  imports Main
begin

section \<open>Python values and exceptions\<close>

text \<open>
  The script \<^verbatim>\<open>hrms_api_data_extraction.py\<close> only inspects values that come out of
  \<^verbatim>\<open>response.json()\<close>, so a Python value is a parsed JSON value. \<open>JNull\<close> is Python's
  \<^verbatim>\<open>None\<close>; \<open>JObj\<close> holds the parsed dictionary as an association list (keys of a
  JSON object are always strings). JSON numbers are kept as integers: the script
  only ever tests a value for truthiness.
\<close>

datatype json =
    JNull
  | JBool bool
  | JNum int
  | JStr string
  | JArr "json list"
  | JObj "(string \<times> json) list"

text \<open>Python's truth value of an object, as used by \<^verbatim>\<open>if x:\<close> and \<^verbatim>\<open>not x\<close>.\<close>

fun truthy :: "json \<Rightarrow> bool" where
  "truthy JNull = False"
| "truthy (JBool b) = b"
| "truthy (JNum n) = (n \<noteq> 0)"
| "truthy (JStr s) = (s \<noteq> [])"
| "truthy (JArr xs) = (xs \<noteq> [])"
| "truthy (JObj kvs) = (kvs \<noteq> [])"

text \<open>
  The exceptions the script can meet. All of them derive from Python's
  \<^verbatim>\<open>Exception\<close>: \<open>RequestException\<close> is what \<^verbatim>\<open>requests.request\<close> raises on a
  network failure, \<open>JSONDecodeError\<close> what \<^verbatim>\<open>response.json()\<close> raises on a body that
  is not JSON, \<open>OSError\<close> what \<^verbatim>\<open>open\<close> raises, \<open>ClientError\<close> what
  \<^verbatim>\<open>put_object\<close> raises and \<open>ArrowError\<close> what \<^verbatim>\<open>to_parquet\<close> raises;
  \<open>ValueError\<close> is among what pandas raises when it builds a frame.
\<close>

datatype py_exception =
    RequestException
  | JSONDecodeError
  | AttributeError
  | TypeError
  | KeyError
  | UnboundLocalError
  | OSError
  | ClientError
  | ArrowError
  | ValueError

definition bind_exc :: "py_exception + 'a \<Rightarrow> ('a \<Rightarrow> py_exception + 'b) \<Rightarrow> py_exception + 'b" where
  "bind_exc m f = (case m of Inl e \<Rightarrow> Inl e | Inr v \<Rightarrow> f v)"

text \<open>
  What one HTTP request gives: a response with its status code and body (\<open>None\<close>
  when the body is not JSON), or an exception raised by \<^verbatim>\<open>requests.request\<close>.
\<close>

datatype http_result =
    Response int "json option"
  | RequestFailed

text \<open>\<^verbatim>\<open>response.json()\<close>\<close>

definition json_of :: "json option \<Rightarrow> py_exception + json" where
  "json_of body = (case body of None \<Rightarrow> Inl JSONDecodeError | Some j \<Rightarrow> Inr j)"

text \<open>\<^verbatim>\<open>v.get(key, default)\<close>: only a dict has the method.\<close>

fun dict_get :: "json \<Rightarrow> string \<Rightarrow> json \<Rightarrow> py_exception + json" where
  "dict_get (JObj kvs) k d = Inr (case map_of kvs k of None \<Rightarrow> d | Some v \<Rightarrow> v)"
| "dict_get _ k d = Inl AttributeError"

text \<open>
  \<^verbatim>\<open>v[key]\<close> with a string key: \<^verbatim>\<open>KeyError\<close> on a dict without the key,
  \<^verbatim>\<open>TypeError\<close> on a list, a string, a number, a boolean or \<^verbatim>\<open>None\<close>.
\<close>

fun getitem :: "json \<Rightarrow> string \<Rightarrow> py_exception + json" where
  "getitem (JObj kvs) k = (case map_of kvs k of None \<Rightarrow> Inl KeyError | Some v \<Rightarrow> Inr v)"
| "getitem _ k = Inl TypeError"

section \<open>State of a run and its environment\<close>

datatype log_record =
    LogInfo string
  | LogWarning string
  | LogError string

text \<open>
  One row of a pandas frame built at lines 150--155: the record's
  \<^verbatim>\<open>BasicDetail\<close> value with the two columns the script adds. A frame is the list
  of its rows, \<^verbatim>\<open>df.shape[0]\<close> its length, \<^verbatim>\<open>pd.concat\<close> is append.
\<close>

record row =
  BasicDetail :: json
  isLoadCompleted :: json
  EXTRACT_TIMESTAMP :: string

text \<open>
  The locals \<^verbatim>\<open>ACCESS_TOKEN\<close> and \<^verbatim>\<open>overall_df\<close> of \<^verbatim>\<open>make_api_request\<close>, and what
  the run has done so far: the number of POSTs to the token URL and to the API
  URL, the frames handed to \<^verbatim>\<open>save_to_s3_parquet\<close> (the sink), the number of log
  files stored, and the log.
\<close>

record state =
  ACCESS_TOKEN :: json
  overall_df :: "row list"
  token_calls :: nat
  api_calls :: nat
  sink :: "row list list"
  log_uploads :: nat
  log_records :: "log_record list"

text \<open>
  The environment: the answer to the k-th POST to the token URL and to the API
  URL, and whether writing the parquet object, opening the log file and storing
  the log file raise. pandas is not part of the script: \<open>pandas_frame\<close> is what
  lines 150--155 make of \<^verbatim>\<open>rowData_list\<close>, the flag and the timestamp (an exception,
  or the rows of the frame) on the inputs for which the model below does not fix
  it.
\<close>

record world =
  token_responses :: "nat \<Rightarrow> http_result"
  api_responses :: "nat \<Rightarrow> http_result"
  parquet_put :: "py_exception option"
  log_open :: "py_exception option"
  log_put :: "py_exception option"
  pandas_frame :: "json list \<Rightarrow> json \<Rightarrow> string \<Rightarrow> py_exception + row list"

text \<open>A call returns a value or raises; both leave a state behind.\<close>

datatype 'a outcome =
    Returned 'a state
  | Raised py_exception state

fun state_of :: "'a outcome \<Rightarrow> state" where
  "state_of (Returned v s) = s"
| "state_of (Raised e s) = s"

fun value_of :: "'a outcome \<Rightarrow> py_exception + 'a" where
  "value_of (Returned v s) = Inr v"
| "value_of (Raised e s) = Inl e"

definition logger :: "log_record \<Rightarrow> state \<Rightarrow> state" where
  "logger r s = s\<lparr>log_records := log_records s @ [r]\<rparr>"

definition init_state :: state where
  "init_state = \<lparr>ACCESS_TOKEN = JNull, overall_df = [], token_calls = 0, api_calls = 0,
     sink = [], log_uploads = 0, log_records = []\<rparr>"

section \<open>The functions of the script\<close>

text \<open>
  \<^verbatim>\<open>upload_log_to_s3\<close>, lines 69--75. Everything is inside
  \<^verbatim>\<open>try ... except Exception\<close>.
\<close>

definition upload_log_to_s3 :: "world \<Rightarrow> state \<Rightarrow> unit outcome" where
  "upload_log_to_s3 w s =
     (case log_open w of
        Some e \<Rightarrow> Returned () (logger (LogError ''Failed to upload log file to S3'') s)
      | None \<Rightarrow>
          (case log_put w of
             Some e \<Rightarrow> Returned () (logger (LogError ''Failed to upload log file to S3'') s)
           | None \<Rightarrow>
               Returned ()
                 (logger (LogInfo ''Log file uploaded to S3'')
                    (s\<lparr>log_uploads := Suc (log_uploads s)\<rparr>))))"

text \<open>
  \<^verbatim>\<open>save_to_s3_parquet\<close>, lines 53--66. The frame is recorded as handed to the
  sink; \<^verbatim>\<open>to_parquet\<close> and \<^verbatim>\<open>put_object\<close> are not guarded.
\<close>

definition save_to_s3_parquet :: "world \<Rightarrow> row list \<Rightarrow> state \<Rightarrow> unit outcome" where
  "save_to_s3_parquet w df s =
     (let s1 = s\<lparr>sink := sink s @ [df]\<rparr> in
      case parquet_put w of
        Some e \<Rightarrow> Raised e s1
      | None \<Rightarrow> Returned () (logger (LogInfo ''Data saved to S3'') s1))"

text \<open>
  \<^verbatim>\<open>get_new_access_token\<close>, lines 77--97. \<^verbatim>\<open>ACCESS_TOKEN\<close> is a local of the
  function (the \<^verbatim>\<open>global\<close> statement is commented out), assigned in the first
  and the third branch only: in the second branch \<^verbatim>\<open>return ACCESS_TOKEN\<close> reads
  an unbound local.
\<close>

definition get_new_access_token :: "world \<Rightarrow> state \<Rightarrow> json outcome" where
  "get_new_access_token w s =
     (let s1 = s\<lparr>token_calls := Suc (token_calls s)\<rparr> in
      case token_responses w (token_calls s) of
        RequestFailed \<Rightarrow> Raised RequestException s1
      | Response status_code body \<Rightarrow>
          if status_code = 200 then
            (case bind_exc (json_of body) (\<lambda>j. dict_get j ''access_token'' JNull) of
               Inl e \<Rightarrow> Raised e s1
             | Inr new_token \<Rightarrow>
                 if truthy new_token
                 then Returned new_token (logger (LogInfo ''Token refreshed successfully!'') s1)
                 else Raised UnboundLocalError
                        (logger (LogWarning ''Failed to retrieve new access token.'') s1))
          else Returned JNull (logger (LogError ''Failed to refresh token'') s1))"

text \<open>One \<^verbatim>\<open>requests.request("POST", api_url, ...)\<close>, lines 119 and 129.\<close>

definition post_api :: "world \<Rightarrow> state \<Rightarrow> (int \<times> json option) outcome" where
  "post_api w s =
     (let s1 = s\<lparr>api_calls := Suc (api_calls s)\<rparr> in
      case api_responses w (api_calls s) of
        RequestFailed \<Rightarrow> Raised RequestException s1
      | Response status_code body \<Rightarrow> Returned (status_code, body) s1)"

text \<open>
  The four \<^verbatim>\<open>break\<close> statements of the loop: line 126 (\<open>RefreshFailed\<close>), line 135
  (\<open>HttpError\<close> with the status), line 142 (\<open>InvalidStructure\<close>) and line 160
  (\<open>LoadComplete\<close>).
\<close>

datatype loop_exit =
    LoadComplete
  | RefreshFailed
  | HttpError int
  | InvalidStructure

datatype 'a flow = Go 'a | Stop loop_exit

datatype control = Continue | Break loop_exit

text \<open>Lines 119--129: the request, and on a 401 the refresh and the second request.\<close>

definition request_with_refresh ::
  "world \<Rightarrow> state \<Rightarrow> (int \<times> json option) flow outcome" where
  "request_with_refresh w s =
     (case post_api w s of
        Raised e s1 \<Rightarrow> Raised e s1
      | Returned api_response s1 \<Rightarrow>
          if fst api_response = 401 then
            (case get_new_access_token w (logger (LogWarning ''Token expired, refreshing...'') s1) of
               Raised e s2 \<Rightarrow> Raised e s2
             | Returned tok s2 \<Rightarrow>
                 if truthy tok then
                   (case post_api w (s2\<lparr>ACCESS_TOKEN := tok\<rparr>) of
                      Raised e s3 \<Rightarrow> Raised e s3
                    | Returned api_response2 s3 \<Rightarrow> Returned (Go api_response2) s3)
                 else
                   Returned (Stop RefreshFailed)
                     (logger (LogError ''Failed to refresh access token after expiration. Exiting.'')
                        (s2\<lparr>ACCESS_TOKEN := tok\<rparr>)))
          else Returned (Go api_response) s1)"

text \<open>Lines 119--135: the status check on the response that is left.\<close>

definition fetch_page :: "world \<Rightarrow> state \<Rightarrow> (json option) flow outcome" where
  "fetch_page w s =
     (case request_with_refresh w s of
        Raised e s1 \<Rightarrow> Raised e s1
      | Returned (Stop x) s1 \<Rightarrow> Returned (Stop x) s1
      | Returned (Go api_response) s1 \<Rightarrow>
          if fst api_response = 200 \<or> fst api_response = 201
          then Returned (Go (snd api_response)) (logger (LogInfo ''Request Successful!'') s1)
          else Returned (Stop (HttpError (fst api_response))) (logger (LogError ''Error'') s1))"

text \<open>Line 139: \<^verbatim>\<open>api_response.json()['root']['EmployeeMaster']['EmployeeMasterData']\<close>.\<close>

definition record_path :: "json option \<Rightarrow> py_exception + json" where
  "record_path body =
     bind_exc (json_of body) (\<lambda>j.
     bind_exc (getitem j ''root'') (\<lambda>r.
     bind_exc (getitem r ''EmployeeMaster'') (\<lambda>m.
     getitem m ''EmployeeMasterData'')))"

text \<open>Line 147, for one record: \<^verbatim>\<open>record['BasicDetails']['BasicDetail']\<close>.\<close>

definition rowData :: "json \<Rightarrow> py_exception + json" where
  "rowData r = bind_exc (getitem r ''BasicDetails'') (\<lambda>d. getitem d ''BasicDetail'')"

text \<open>
  Lines 144--148: the loop over \<^verbatim>\<open>range(len(api_response_body))\<close>. On a list it
  visits the records in order. A non-empty dict has no key \<^verbatim>\<open>0\<close>, the characters
  of a non-empty string cannot be indexed by a string, and \<^verbatim>\<open>len\<close> of a number, a
  boolean or \<^verbatim>\<open>None\<close> is a \<^verbatim>\<open>TypeError\<close>.
\<close>

fun rows_of_records :: "json list \<Rightarrow> py_exception + json list" where
  "rows_of_records [] = Inr []"
| "rows_of_records (r # rs) =
     bind_exc (rowData r) (\<lambda>x. bind_exc (rows_of_records rs) (\<lambda>xs. Inr (x # xs)))"

fun rowData_list :: "json \<Rightarrow> py_exception + json list" where
  "rowData_list (JArr rs) = rows_of_records rs"
| "rowData_list (JObj kvs) = (if kvs = [] then Inr [] else Inl KeyError)"
| "rowData_list (JStr s) = (if s = [] then Inr [] else Inl TypeError)"
| "rowData_list _ = Inl TypeError"

text \<open>Line 151: \<^verbatim>\<open>api_response.json().get('isLoadComplete', False)\<close>.\<close>

definition is_load_complete :: "json option \<Rightarrow> py_exception + json" where
  "is_load_complete body =
     bind_exc (json_of body) (\<lambda>j. dict_get j ''isLoadComplete'' (JBool False))"

text \<open>A JSON object (a Python dict), and a value that pandas broadcasts as a scalar.\<close>

fun is_dict :: "json \<Rightarrow> bool" where
  "is_dict (JObj kvs) = True"
| "is_dict _ = False"

fun scalar :: "json \<Rightarrow> bool" where
  "scalar (JArr xs) = False"
| "scalar (JObj kvs) = False"
| "scalar _ = True"

text \<open>
  The frame that \<^verbatim>\<open>pd.DataFrame\<close> builds from a list of dicts, with a scalar
  assigned to each of the two columns: one row for each dict.
\<close>

definition page_df :: "string \<Rightarrow> json \<Rightarrow> json list \<Rightarrow> row list" where
  "page_df current_timestamp flag rows =
     map (\<lambda>d. \<lparr>BasicDetail = d, isLoadCompleted = flag, EXTRACT_TIMESTAMP = current_timestamp\<rparr>) rows"

text \<open>
  Lines 150--155: \<^verbatim>\<open>pd.DataFrame(rowData_list)\<close> and the two column assignments.
  When every element of \<^verbatim>\<open>rowData_list\<close> is a dict and the flag is a scalar (a
  boolean, a number, a string or \<^verbatim>\<open>None\<close>) the frame is \<open>page_df\<close>. On other
  inputs pandas may raise (a list-valued flag of the wrong length, a list mixing
  dicts and \<^verbatim>\<open>None\<close>) or build a frame with another number of rows (a list-valued
  flag assigned to an empty frame): there the result is the environment's.
\<close>

definition build_df :: "world \<Rightarrow> string \<Rightarrow> json \<Rightarrow> json list \<Rightarrow> py_exception + row list" where
  "build_df w current_timestamp flag rows =
     (if list_all is_dict rows \<and> scalar flag then Inr (page_df current_timestamp flag rows)
      else pandas_frame w rows flag current_timestamp)"

text \<open>
  One pass through the body of \<^verbatim>\<open>while True\<close>, lines 110--166. Only the
  \<^verbatim>\<open>KeyError\<close> of line 139 is caught (lines 138--142); what lines 144--155
  raise ends the pass.
\<close>

definition loop_body :: "world \<Rightarrow> string \<Rightarrow> state \<Rightarrow> control outcome" where
  "loop_body w current_timestamp s =
     (case fetch_page w s of
        Raised e s1 \<Rightarrow> Raised e s1
      | Returned (Stop x) s1 \<Rightarrow> Returned (Break x) s1
      | Returned (Go body) s1 \<Rightarrow>
          (case record_path body of
             Inl e \<Rightarrow>
               if e = KeyError
               then Returned (Break InvalidStructure)
                      (logger (LogError ''Invalid response structure'') s1)
               else Raised e s1
           | Inr api_response_body \<Rightarrow>
               (case rowData_list api_response_body of
                  Inl e \<Rightarrow> Raised e s1
                | Inr rows \<Rightarrow>
                    (case is_load_complete body of
                       Inl e \<Rightarrow> Raised e s1
                     | Inr flag \<Rightarrow>
                         (case build_df w current_timestamp flag rows of
                            Inl e \<Rightarrow> Raised e s1
                          | Inr df \<Rightarrow>
                              if truthy flag \<and> length df = 0 then
                                Returned (Break LoadComplete)
                                  (logger (LogInfo
                                     ''Data load complete and no more data available, exiting loop.'')
                                     s1)
                              else if length df > 0 then
                                Returned Continue (s1\<lparr>overall_df := overall_df s1 @ df\<rparr>)
                              else
                                Returned Continue
                                  (logger (LogWarning ''No data returned in this response.'')
                                     s1))))))"

text \<open>
  The \<^verbatim>\<open>while True\<close> loop, with fuel: \<open>None\<close> when the loop has not left after
  \<open>fuel\<close> passes.
\<close>

fun loop :: "nat \<Rightarrow> world \<Rightarrow> string \<Rightarrow> state \<Rightarrow> loop_exit outcome option" where
  "loop 0 w current_timestamp s = None"
| "loop (Suc fuel) w current_timestamp s =
     (case loop_body w current_timestamp s of
        Raised e s1 \<Rightarrow> Some (Raised e s1)
      | Returned (Break x) s1 \<Rightarrow> Some (Returned x s1)
      | Returned Continue s1 \<Rightarrow> loop fuel w current_timestamp s1)"

text \<open>The state after \<open>k\<close> passes that all went on to the next pass.\<close>

fun passes :: "nat \<Rightarrow> world \<Rightarrow> string \<Rightarrow> state \<Rightarrow> state option" where
  "passes 0 w current_timestamp s = Some s"
| "passes (Suc k) w current_timestamp s =
     (case loop_body w current_timestamp s of
        Returned Continue s1 \<Rightarrow> passes k w current_timestamp s1
      | _ \<Rightarrow> None)"

text \<open>Lines 168--173: what follows the loop.\<close>

definition save_overall_df :: "world \<Rightarrow> state \<Rightarrow> unit outcome" where
  "save_overall_df w s =
     (if overall_df s \<noteq> [] then
        save_to_s3_parquet w (overall_df s) (logger (LogInfo ''API returned records.'') s)
      else Returned () (logger (LogWarning ''No data to save to S3.'') s))"

text \<open>
  \<^verbatim>\<open>make_api_request\<close>, lines 100--176. Python returns \<^verbatim>\<open>None\<close> on every path; the
  model returns which path it was: the early \<^verbatim>\<open>return\<close> of line 106, or the
  \<^verbatim>\<open>break\<close> that left the loop.
\<close>

datatype run_end = NoToken | LoopEnded loop_exit

definition make_api_request :: "nat \<Rightarrow> world \<Rightarrow> string \<Rightarrow> state \<Rightarrow> run_end outcome option" where
  "make_api_request fuel w current_timestamp s =
     (case get_new_access_token w s of
        Raised e s1 \<Rightarrow> Some (Raised e s1)
      | Returned tok s1 \<Rightarrow>
          if truthy tok then
            (case loop fuel w current_timestamp (s1\<lparr>ACCESS_TOKEN := tok, overall_df := []\<rparr>) of
               None \<Rightarrow> None
             | Some (Raised e s2) \<Rightarrow> Some (Raised e s2)
             | Some (Returned x s2) \<Rightarrow>
                 (case save_overall_df w s2 of
                    Raised e s3 \<Rightarrow> Some (Raised e s3)
                  | Returned u s3 \<Rightarrow>
                      Some (Returned (LoopEnded x)
                        (logger (LogInfo
                           ''Data extraction and saving to S3 completed successfully.'') s3))))
          else
            Some (Returned NoToken
              (logger (LogError ''Access token could not be retrieved. Exiting API call.'')
                 (s1\<lparr>ACCESS_TOKEN := tok\<rparr>))))"

text \<open>
  The script, lines 179--193: an exception of \<^verbatim>\<open>make_api_request\<close> ends the
  process before the log is uploaded.
\<close>

definition run_script :: "nat \<Rightarrow> world \<Rightarrow> string \<Rightarrow> run_end outcome option" where
  "run_script fuel w current_timestamp =
     (case make_api_request fuel w current_timestamp
             (logger (LogInfo ''HRMS API data extraction started'') init_state) of
        None \<Rightarrow> None
      | Some (Raised e s1) \<Rightarrow> Some (Raised e s1)
      | Some (Returned x s1) \<Rightarrow>
          (case upload_log_to_s3 w (logger (LogInfo ''Data extraction is over'') s1) of
             Raised e s2 \<Rightarrow> Some (Raised e s2)
           | Returned u s2 \<Rightarrow> Some (Returned x s2)))"

section \<open>The shape of the provider's responses\<close>

text \<open>
  These predicates describe response bodies by their content alone; none of them
  uses the functions of the script.

  \<open>obj_get j k\<close> is the value under the key \<open>k\<close> when \<open>j\<close> is a JSON object that has
  the key; \<open>obj_lacks j k\<close> says that \<open>j\<close> is a JSON object without the key \<open>k\<close>.
\<close>

fun obj_get :: "json \<Rightarrow> string \<Rightarrow> json option" where
  "obj_get (JObj kvs) k = map_of kvs k"
| "obj_get _ k = None"

fun obj_lacks :: "json \<Rightarrow> string \<Rightarrow> bool" where
  "obj_lacks (JObj kvs) k = (map_of kvs k = None)"
| "obj_lacks _ k = False"

text \<open>
  \<open>record_of r d\<close>: the record \<open>r\<close> is an object whose \<^verbatim>\<open>BasicDetails\<close> is an
  object whose \<^verbatim>\<open>BasicDetail\<close> is the object \<open>d\<close>.
\<close>

definition record_of :: "json \<Rightarrow> json \<Rightarrow> bool" where
  "record_of r d =
     (case obj_get r ''BasicDetails'' of
        None \<Rightarrow> False
      | Some details \<Rightarrow> obj_get details ''BasicDetail'' = Some d \<and> is_dict d)"

text \<open>
  \<open>record_container body\<close>: what the body, a JSON document, holds under
  \<^verbatim>\<open>root\<close>, \<^verbatim>\<open>EmployeeMaster\<close>, \<^verbatim>\<open>EmployeeMasterData\<close>, each of them a key of
  an object.
\<close>

definition record_container :: "json option \<Rightarrow> json option" where
  "record_container body =
     (case body of
        None \<Rightarrow> None
      | Some j \<Rightarrow>
          (case obj_get j ''root'' of
             None \<Rightarrow> None
           | Some root \<Rightarrow>
               (case obj_get root ''EmployeeMaster'' of
                  None \<Rightarrow> None
                | Some master \<Rightarrow> obj_get master ''EmployeeMasterData'')))"

text \<open>
  \<open>page_carries body ds flag\<close>: the record container of the body is a list of
  records whose \<^verbatim>\<open>BasicDetail\<close> objects are \<open>ds\<close>, in this order, and \<open>flag\<close> is
  the body's \<^verbatim>\<open>isLoadComplete\<close> (\<^verbatim>\<open>False\<close> when the key is absent).
\<close>

definition page_carries :: "json option \<Rightarrow> json list \<Rightarrow> json \<Rightarrow> bool" where
  "page_carries body ds flag =
     ((case record_container body of
         Some (JArr records) \<Rightarrow> list_all2 record_of records ds
       | _ \<Rightarrow> False) \<and>
      (case body of
         None \<Rightarrow> False
       | Some j \<Rightarrow>
           flag = (case obj_get j ''isLoadComplete'' of None \<Rightarrow> JBool False | Some v \<Rightarrow> v)))"

text \<open>
  \<open>lacks_record_path body\<close>: the body is a JSON object in which \<^verbatim>\<open>root\<close> is
  missing, or \<^verbatim>\<open>root\<close> is an object in which \<^verbatim>\<open>EmployeeMaster\<close> is missing, or
  that is an object in which \<^verbatim>\<open>EmployeeMasterData\<close> is missing.
\<close>

definition lacks_record_path :: "json option \<Rightarrow> bool" where
  "lacks_record_path body =
     (case body of
        None \<Rightarrow> False
      | Some j \<Rightarrow>
          obj_lacks j ''root'' \<or>
          (case obj_get j ''root'' of
             None \<Rightarrow> False
           | Some root \<Rightarrow>
               obj_lacks root ''EmployeeMaster'' \<or>
               (case obj_get root ''EmployeeMaster'' of
                  None \<Rightarrow> False
                | Some master \<Rightarrow> obj_lacks master ''EmployeeMasterData'')))"

text \<open>
  \<open>lacks_detail_keys r\<close>: the record is an object in which \<^verbatim>\<open>BasicDetails\<close> is
  missing, or in which \<^verbatim>\<open>BasicDetails\<close> is an object without \<^verbatim>\<open>BasicDetail\<close>.
\<close>

definition lacks_detail_keys :: "json \<Rightarrow> bool" where
  "lacks_detail_keys r =
     (obj_lacks r ''BasicDetails'' \<or>
      (case obj_get r ''BasicDetails'' of
         None \<Rightarrow> False
       | Some details \<Rightarrow> obj_lacks details ''BasicDetail''))"

section \<open>Example environments\<close>

definition token_ok :: http_result where
  "token_ok = Response 200 (Some (JObj [(''access_token'', JStr ''t0'')]))"

text \<open>The \<^verbatim>\<open>BasicDetail\<close> object of an employee.\<close>

definition employee :: "string \<Rightarrow> json" where
  "employee code = JObj [(''EmployeeCode'', JStr code)]"

text \<open>A page: the records' \<^verbatim>\<open>BasicDetail\<close> values and the flag, in the provider's shape.\<close>

definition page_body :: "json list \<Rightarrow> json \<Rightarrow> json" where
  "page_body ds flag =
     JObj [(''root'', JObj [(''EmployeeMaster'', JObj [(''EmployeeMasterData'',
        JArr (map (\<lambda>d. JObj [(''BasicDetails'', JObj [(''BasicDetail'', d)])]) ds))])]),
       (''isLoadComplete'', flag)]"

text \<open>
  An environment from its token and API answers, in which no storage call fails.
  Its \<open>pandas_frame\<close> is never consulted by the examples below: all their pages
  have dict rows and a scalar flag.
\<close>

definition mk_world :: "(nat \<Rightarrow> http_result) \<Rightarrow> (nat \<Rightarrow> http_result) \<Rightarrow> world" where
  "mk_world ts as = \<lparr>token_responses = ts, api_responses = as, parquet_put = None,
     log_open = None, log_put = None, pandas_frame = (\<lambda>rows flag t. Inl ValueError)\<rparr>"

text \<open>The response to a request is a 401.\<close>

definition is_401 :: "http_result \<Rightarrow> bool" where
  "is_401 r = (case r of Response status_code body \<Rightarrow> status_code = 401 | RequestFailed \<Rightarrow> False)"

definition token_response :: "string \<Rightarrow> http_result" where
  "token_response t = Response 200 (Some (JObj [(''access_token'', JStr t)]))"

text \<open>
  An environment that answers the first request of each of two pages with 401 and
  hands out a fresh token at every refresh.
\<close>

definition world_two_401 :: world where
  "world_two_401 = mk_world
     (\<lambda>k. if k = 0 then token_response ''t0'' else if k = 1 then token_response ''t1''
          else token_response ''t2'')
     (\<lambda>k. if k = 0 then Response 401 None
          else if k = 1 then Response 200 (Some (page_body [employee ''a''] (JBool False)))
          else if k = 2 then Response 401 None
          else Response 200 (Some (page_body [] (JBool True))))"


text \<open>The state in which the loop starts once the first token is there.\<close>

definition loop_start :: state where
  "loop_start = init_state\<lparr>ACCESS_TOKEN := JStr ''t0'', token_calls := 1\<rparr>"

text \<open>
  An environment that answers the first API request with 401 and every later one
  with \<open>retried\<close>, and every token request with \<open>refreshed\<close>.
\<close>

definition world_401 :: "http_result \<Rightarrow> http_result \<Rightarrow> world" where
  "world_401 refreshed retried =
     mk_world (\<lambda>k. refreshed) (\<lambda>k. if k = 0 then Response 401 None else retried)"

text \<open>
  Two environments for the first page: status 202 with an empty JSON object, and
  status 200 with \<^verbatim>\<open>{"root": null}\<close>.
\<close>

definition world_status_202 :: world where
  "world_status_202 = mk_world (\<lambda>k. token_ok) (\<lambda>k. Response 202 (Some (JObj [])))"

definition world_root_null :: world where
  "world_root_null = mk_world (\<lambda>k. token_ok)
     (\<lambda>k. Response 200 (Some (JObj [(''root'', JNull)])))"

text \<open>An environment that answers every API request with status 200 and the given body.\<close>

definition world_body :: "json \<Rightarrow> world" where
  "world_body body = mk_world (\<lambda>k. token_ok) (\<lambda>k. Response 200 (Some body))"

text \<open>The same, with the given behaviour of pandas outside the modelled domain.\<close>

definition world_pandas ::
  "json \<Rightarrow> (json list \<Rightarrow> json \<Rightarrow> string \<Rightarrow> py_exception + row list) \<Rightarrow> world" where
  "world_pandas body f = (world_body body)\<lparr>pandas_frame := f\<rparr>"

text \<open>
  An environment whose first page has one row and whose second page holds a good
  record followed by the given record.
\<close>

definition world_bad_record :: "json \<Rightarrow> world" where
  "world_bad_record bad = mk_world (\<lambda>k. token_ok)
     (\<lambda>k. if k = 0 then Response 200 (Some (page_body [employee ''a''] (JBool False)))
          else Response 200 (Some (JObj [(''root'', JObj [(''EmployeeMaster'',
                 JObj [(''EmployeeMasterData'',
                   JArr [JObj [(''BasicDetails'', JObj [(''BasicDetail'', employee ''b'')])],
                         bad])])])])))"



text \<open>
  What no call inside the loop touches: the sink and the stored logs stay as they
  are, \<^verbatim>\<open>overall_df\<close> only grows at its end, the request counters only grow.
\<close>

definition extends :: "state \<Rightarrow> state \<Rightarrow> bool" where
  "extends s s' \<longleftrightarrow>
     sink s' = sink s \<and> log_uploads s' = log_uploads s \<and>
     (\<exists>rest. overall_df s' = overall_df s @ rest) \<and>
     token_calls s \<le> token_calls s' \<and> api_calls s \<le> api_calls s'"

section \<open>Effects of the calls\<close>

lemma extends_refl [simp]: "extends s s"
  by (simp add: extends_def)

lemma extends_trans: "extends s s1 \<Longrightarrow> extends s1 s2 \<Longrightarrow> extends s s2"
  by (auto simp: extends_def)

lemma extends_logger [simp]: "extends s (logger r s') = extends s s'"
  by (simp add: extends_def logger_def)

lemma extends_logger_left [simp]: "extends (logger r s) s' = extends s s'"
  by (simp add: extends_def logger_def)

lemma extends_token [simp]: "extends s (s'\<lparr>ACCESS_TOKEN := t\<rparr>) = extends s s'"
  by (simp add: extends_def)

lemma extends_token_left [simp]: "extends (s\<lparr>ACCESS_TOKEN := t\<rparr>) s' = extends s s'"
  by (simp add: extends_def)

lemma state_of_eqD: "x = Returned v s1 \<Longrightarrow> state_of x = s1"
  "x = Raised e s1 \<Longrightarrow> state_of x = s1"
  by simp_all

lemma post_api_state:
  "state_of (post_api w s) = s\<lparr>api_calls := Suc (api_calls s)\<rparr>"
  by (simp add: post_api_def Let_def split: http_result.splits)

lemma post_api_extends: "extends s (state_of (post_api w s))"
  by (simp add: post_api_state extends_def)

lemma gnat_token_calls:
  "token_calls (state_of (get_new_access_token w s)) = Suc (token_calls s)"
  by (simp add: get_new_access_token_def logger_def Let_def split: http_result.splits sum.splits)

lemma gnat_frame:
  "api_calls (state_of (get_new_access_token w s)) = api_calls s"
  "sink (state_of (get_new_access_token w s)) = sink s"
  "overall_df (state_of (get_new_access_token w s)) = overall_df s"
  "log_uploads (state_of (get_new_access_token w s)) = log_uploads s"
  "ACCESS_TOKEN (state_of (get_new_access_token w s)) = ACCESS_TOKEN s"
  by (simp_all add: get_new_access_token_def logger_def Let_def split: http_result.splits sum.splits)

lemma gnat_extends: "extends s (state_of (get_new_access_token w s))"
  by (simp add: extends_def gnat_frame gnat_token_calls)

lemma gnat_value_cong:
  "token_calls s = token_calls s' \<Longrightarrow>
   value_of (get_new_access_token w s) = value_of (get_new_access_token w s')"
  by (simp add: get_new_access_token_def logger_def Let_def split: http_result.splits sum.splits)

lemma rwr_extends: "extends s (state_of (request_with_refresh w s))"
proof (cases "post_api w s")
  case (Raised e s1)
  with post_api_extends [of s w] show ?thesis
    by (simp add: request_with_refresh_def)
next
  case (Returned r s1)
  with post_api_extends [of s w] have e1: "extends s s1" by simp
  show ?thesis
  proof (cases "fst r = 401")
    case False
    with Returned e1 show ?thesis by (simp add: request_with_refresh_def)
  next
    case True
    let ?s1 = "logger (LogWarning ''Token expired, refreshing...'') s1"
    have e2: "extends s (state_of (get_new_access_token w ?s1))"
      using extends_trans [OF e1, of "state_of (get_new_access_token w ?s1)"]
        gnat_extends [of ?s1 w] by simp
    show ?thesis
    proof (cases "get_new_access_token w ?s1")
      case (Raised e s2)
      with Returned True e2 show ?thesis by (simp add: request_with_refresh_def)
    next
      case R2: (Returned tok s2)
      with e2 have e2': "extends s s2" by simp
      have e3: "extends s (state_of (post_api w (s2\<lparr>ACCESS_TOKEN := tok\<rparr>)))"
        using extends_trans [OF e2', of "state_of (post_api w (s2\<lparr>ACCESS_TOKEN := tok\<rparr>))"]
          post_api_extends [of "s2\<lparr>ACCESS_TOKEN := tok\<rparr>" w] by simp
      show ?thesis
      proof (cases "post_api w (s2\<lparr>ACCESS_TOKEN := tok\<rparr>)")
        case (Raised e s3)
        with Returned True R2 e2' e3 show ?thesis
          by (simp add: request_with_refresh_def)
      next
        case R3: (Returned r3 s3)
        with Returned True R2 e2' e3 show ?thesis
          by (simp add: request_with_refresh_def)
      qed
    qed
  qed
qed

lemma fetch_page_extends: "extends s (state_of (fetch_page w s))"
proof (cases "request_with_refresh w s")
  case (Raised e s1)
  with rwr_extends [of s w] show ?thesis by (simp add: fetch_page_def)
next
  case (Returned f s1)
  with rwr_extends [of s w] show ?thesis
    by (cases f) (simp_all add: fetch_page_def)
qed

lemma loop_body_extends: "extends s (state_of (loop_body w ts s))"
proof (cases "fetch_page w s")
  case (Raised e s1)
  with fetch_page_extends [of s w] show ?thesis by (simp add: loop_body_def)
next
  case (Returned f s1)
  with fetch_page_extends [of s w] have e1: "extends s s1" by simp
  show ?thesis
  proof (cases f)
    case (Stop x)
    with Returned e1 show ?thesis by (simp add: loop_body_def)
  next
    case (Go body)
    have e2: "extends s (s1\<lparr>overall_df := overall_df s1 @ df\<rparr>)" for df
      using e1 by (auto simp: extends_def)
    from Returned Go e1 e2 show ?thesis
      by (simp add: loop_body_def Let_def split: sum.splits)
  qed
qed


lemma loop_passes: "passes k w ts s = Some s' \<Longrightarrow> loop (k + n) w ts s = loop n w ts s'"
proof (induction k arbitrary: s)
  case 0
  then show ?case by simp
next
  case (Suc k)
  then show ?case
    by (cases "loop_body w ts s") (auto split: control.splits)
qed

lemma passes_extends: "passes k w ts s = Some s' \<Longrightarrow> extends s s'"
proof (induction k arbitrary: s)
  case 0
  then show ?case by simp
next
  case (Suc k)
  show ?case
  proof (cases "loop_body w ts s")
    case (Raised e s1)
    with Suc.prems show ?thesis by simp
  next
    case (Returned c s1)
    with Suc.prems have c: "c = Continue" and p: "passes k w ts s1 = Some s'"
      by (auto split: control.splits)
    from Returned loop_body_extends [of s w ts] have "extends s s1" by simp
    with Suc.IH [OF p] show ?thesis by (rule extends_trans [rotated])
  qed
qed

section \<open>The token function\<close>

text \<open>
  C6: the claim is that \<^verbatim>\<open>get_new_access_token\<close> never raises and returns a falsy
  value on every failure. On a 200 response whose JSON object has no
  \<^verbatim>\<open>access_token\<close> the function logs the warning and then raises
  \<^verbatim>\<open>UnboundLocalError\<close> at \<^verbatim>\<open>return ACCESS_TOKEN\<close>, after exactly one request.
\<close>

theorem get_new_access_token_missing_field_raises:
  "get_new_access_token (mk_world (\<lambda>k. Response 200 (Some (JObj []))) (\<lambda>k. RequestFailed)) init_state
     = Raised UnboundLocalError
         (logger (LogWarning ''Failed to retrieve new access token.'')
            (init_state\<lparr>token_calls := 1\<rparr>))"
  by (simp add: get_new_access_token_def mk_world_def init_state_def bind_exc_def json_of_def)

text \<open>
  C5: the claim as stated (a credential on every 2xx response that carries the
  token field) fails on status 201: the function compares the status with 200, so a
  201 response with a token gives \<^verbatim>\<open>None\<close>.
\<close>

theorem get_new_access_token_201_counterexample:
  "value_of (get_new_access_token
      (mk_world (\<lambda>k. Response 201 (Some (JObj [(''access_token'', JStr ''t0'')])))
         (\<lambda>k. RequestFailed))
      init_state) = Inr JNull"
  by (simp add: get_new_access_token_def mk_world_def init_state_def)

text \<open>
  C5, as amended: \<^verbatim>\<open>get_new_access_token\<close> sends exactly one request to the Token
  Provider. On status 200 with a JSON object whose \<^verbatim>\<open>access_token\<close> is a truthy
  value it returns that value, and these are the only responses on which it returns
  a credential (a truthy value). On every status other than 200 it returns
  \<^verbatim>\<open>None\<close>.
\<close>

theorem get_new_access_token_credential:
  "token_calls (state_of (get_new_access_token w s)) = Suc (token_calls s) \<and>
   (\<forall>kvs t. token_responses w (token_calls s) = Response 200 (Some (JObj kvs)) \<and>
        map_of kvs ''access_token'' = Some t \<and> truthy t \<longrightarrow>
        value_of (get_new_access_token w s) = Inr t) \<and>
   ((\<exists>t. value_of (get_new_access_token w s) = Inr t \<and> truthy t) \<longleftrightarrow>
    (\<exists>kvs t. token_responses w (token_calls s) = Response 200 (Some (JObj kvs)) \<and>
        map_of kvs ''access_token'' = Some t \<and> truthy t)) \<and>
   (\<forall>c b. token_responses w (token_calls s) = Response c b \<and> c \<noteq> 200 \<longrightarrow>
        value_of (get_new_access_token w s) = Inr JNull)"
proof (intro conjI allI impI)
  show "token_calls (state_of (get_new_access_token w s)) = Suc (token_calls s)"
    by (rule gnat_token_calls)
next
  fix kvs t
  assume "token_responses w (token_calls s) = Response 200 (Some (JObj kvs)) \<and>
        map_of kvs ''access_token'' = Some t \<and> truthy t"
  then show "value_of (get_new_access_token w s) = Inr t"
    by (simp add: get_new_access_token_def bind_exc_def json_of_def)
next
  fix c b
  assume "token_responses w (token_calls s) = Response c b \<and> c \<noteq> 200"
  then show "value_of (get_new_access_token w s) = Inr JNull"
    by (simp add: get_new_access_token_def)
next
  show "(\<exists>t. value_of (get_new_access_token w s) = Inr t \<and> truthy t) \<longleftrightarrow>
    (\<exists>kvs t. token_responses w (token_calls s) = Response 200 (Some (JObj kvs)) \<and>
        map_of kvs ''access_token'' = Some t \<and> truthy t)"
  proof (cases "token_responses w (token_calls s)")
    case RequestFailed
    then show ?thesis by (simp add: get_new_access_token_def)
  next
    case (Response c b)
    show ?thesis
    proof (cases "c = 200")
      case False
      with Response show ?thesis by (simp add: get_new_access_token_def)
    next
      case True
      show ?thesis
      proof (cases b)
        case None
        with Response True show ?thesis
          by (simp add: get_new_access_token_def bind_exc_def json_of_def)
      next
        case (Some j)
        with Response True show ?thesis
          by (cases j)
            (auto simp: get_new_access_token_def bind_exc_def json_of_def Let_def
              split: option.splits if_splits)
      qed
    qed
  qed
qed

theorem get_new_access_token_credential_witness:
  "token_calls (state_of (get_new_access_token
       (mk_world (\<lambda>k. token_ok) (\<lambda>k. RequestFailed)) init_state)) = 1 \<and>
   value_of (get_new_access_token
       (mk_world (\<lambda>k. token_ok) (\<lambda>k. RequestFailed)) init_state) = Inr (JStr ''t0'')"
  using get_new_access_token_credential
    [of "mk_world (\<lambda>k. token_ok) (\<lambda>k. RequestFailed)" init_state]
  by (simp add: mk_world_def token_ok_def init_state_def)

section \<open>The credential\<close>

lemma rwr_token_calls:
  "token_calls (state_of (request_with_refresh w s)) =
     (if is_401 (api_responses w (api_calls s)) then Suc (token_calls s) else token_calls s)"
proof (cases "api_responses w (api_calls s)")
  case RequestFailed
  then show ?thesis by (simp add: request_with_refresh_def post_api_def is_401_def)
next
  case (Response c b)
  show ?thesis
  proof (cases "c = 401")
    case False
    with Response show ?thesis by (simp add: request_with_refresh_def post_api_def is_401_def)
  next
    case True
    let ?s1 = "logger (LogWarning ''Token expired, refreshing...'') (s\<lparr>api_calls := Suc (api_calls s)\<rparr>)"
    have t: "token_calls (state_of (get_new_access_token w ?s1)) = Suc (token_calls s)"
      by (simp add: gnat_token_calls logger_def)
    show ?thesis
    proof (cases "get_new_access_token w ?s1")
      case (Raised e s2)
      with Response True t show ?thesis
        by (simp add: request_with_refresh_def post_api_def is_401_def)
    next
      case (Returned tok s2)
      with t have t2: "token_calls s2 = Suc (token_calls s)" by simp
      have "token_calls (state_of (post_api w (s2\<lparr>ACCESS_TOKEN := tok\<rparr>))) = Suc (token_calls s)"
        by (simp add: post_api_state t2)
      with Response True Returned t2 show ?thesis
        by (cases "post_api w (s2\<lparr>ACCESS_TOKEN := tok\<rparr>)")
          (simp_all add: request_with_refresh_def post_api_def is_401_def logger_def)
    qed
  qed
qed

lemma fetch_page_token_calls:
  "token_calls (state_of (fetch_page w s)) = token_calls (state_of (request_with_refresh w s))"
proof (cases "request_with_refresh w s")
  case (Raised e s1)
  then show ?thesis by (simp add: fetch_page_def)
next
  case (Returned f s1)
  then show ?thesis by (cases f) (simp_all add: fetch_page_def logger_def)
qed

lemma loop_body_token_calls:
  "token_calls (state_of (loop_body w ts s)) = token_calls (state_of (fetch_page w s))"
proof (cases "fetch_page w s")
  case (Raised e s1)
  then show ?thesis by (simp add: loop_body_def)
next
  case (Returned f s1)
  then show ?thesis
    by (cases f) (simp_all add: loop_body_def logger_def Let_def split: sum.splits)
qed

lemma passes_token_calls:
  "passes k w ts s = Some s' \<Longrightarrow> token_calls s' \<le> token_calls s + k"
proof (induction k arbitrary: s)
  case 0
  then show ?case by simp
next
  case (Suc k)
  show ?case
  proof (cases "loop_body w ts s")
    case (Raised e s1)
    with Suc.prems show ?thesis by simp
  next
    case (Returned c s1)
    with Suc.prems have p: "passes k w ts s1 = Some s'"
      by (auto split: control.splits)
    have "token_calls (state_of (loop_body w ts s)) \<le> Suc (token_calls s)"
      by (simp add: loop_body_token_calls fetch_page_token_calls rwr_token_calls)
    with Returned have "token_calls s1 \<le> Suc (token_calls s)" by simp
    with Suc.IH [OF p] show ?thesis by simp
  qed
qed

text \<open>
  C8: the claim is that the credential obtained at the start is replaced at most
  once in a run. In the environment below page one and page two each answer 401
  first: the run makes three token requests and ends with the third token.
\<close>

theorem credential_replaced_twice_counterexample:
  "map_option value_of (make_api_request (Suc (Suc 0)) world_two_401 ''ts'' init_state)
     = Some (Inr (LoopEnded LoadComplete)) \<and>
   map_option (\<lambda>out. token_calls (state_of out))
       (make_api_request (Suc (Suc 0)) world_two_401 ''ts'' init_state) = Some 3 \<and>
   map_option (\<lambda>out. ACCESS_TOKEN (state_of out))
       (make_api_request (Suc (Suc 0)) world_two_401 ''ts'' init_state) = Some (JStr ''t2'')"
  by (simp add: make_api_request_def world_two_401_def mk_world_def token_response_def
      init_state_def get_new_access_token_def bind_exc_def json_of_def logger_def
      loop_body_def fetch_page_def request_with_refresh_def post_api_def page_body_def
      record_path_def rowData_def is_load_complete_def page_df_def build_df_def employee_def
      save_overall_df_def save_to_s3_parquet_def Let_def)

text \<open>
  C8, as amended: the credential is replaced at most once in each pass of the loop,
  namely exactly when the first response of the pass is a 401; over \<open>k\<close> passes
  it is replaced at most \<open>k\<close> times.
\<close>

theorem credential_replaced_once_per_pass:
  "token_calls (state_of (loop_body w ts s)) =
     (if is_401 (api_responses w (api_calls s)) then Suc (token_calls s) else token_calls s) \<and>
   (\<forall>k s'. passes k w ts s = Some s' \<longrightarrow> token_calls s' \<le> token_calls s + k)"
  by (simp add: loop_body_token_calls fetch_page_token_calls rwr_token_calls passes_token_calls)

theorem credential_replaced_once_per_pass_witness:
  "\<exists>s'. passes (Suc 0) world_two_401 ''ts'' (init_state\<lparr>ACCESS_TOKEN := JStr ''t0'', token_calls := 1\<rparr>) = Some s' \<and>
     token_calls s' \<le> 1 + Suc 0"
proof -
  let ?s = "init_state\<lparr>ACCESS_TOKEN := JStr ''t0'', token_calls := 1\<rparr>"
  have "\<exists>s'. passes (Suc 0) world_two_401 ''ts'' ?s = Some s'"
    by (simp add: world_two_401_def mk_world_def token_response_def
      init_state_def get_new_access_token_def bind_exc_def json_of_def logger_def
      loop_body_def fetch_page_def request_with_refresh_def post_api_def page_body_def
      record_path_def rowData_def is_load_complete_def page_df_def build_df_def employee_def
      Let_def)
  then obtain s' where p: "passes (Suc 0) world_two_401 ''ts'' ?s = Some s'" ..
  with credential_replaced_once_per_pass [of world_two_401 "''ts''" ?s]
  have "token_calls s' \<le> token_calls ?s + Suc 0" by blast
  with p show ?thesis by (simp add: init_state_def)
qed

section \<open>The log upload\<close>

lemma gnat_log_independent:
  "get_new_access_token (w\<lparr>log_open := a, log_put := b\<rparr>) s = get_new_access_token w s"
  by (simp add: get_new_access_token_def)

lemma post_api_log_independent:
  "post_api (w\<lparr>log_open := a, log_put := b\<rparr>) s = post_api w s"
  by (simp add: post_api_def)

lemma rwr_log_independent:
  "request_with_refresh (w\<lparr>log_open := a, log_put := b\<rparr>) s = request_with_refresh w s"
  by (simp add: request_with_refresh_def gnat_log_independent post_api_log_independent
      cong: outcome.case_cong if_cong)

lemma build_df_log_independent:
  "build_df (w\<lparr>log_open := a, log_put := b\<rparr>) ts flag rows = build_df w ts flag rows"
  by (simp add: build_df_def)

lemma loop_body_log_independent:
  "loop_body (w\<lparr>log_open := a, log_put := b\<rparr>) ts s = loop_body w ts s"
  by (simp add: loop_body_def fetch_page_def rwr_log_independent build_df_log_independent
      cong: outcome.case_cong flow.case_cong sum.case_cong)

lemma loop_log_independent:
  "loop n (w\<lparr>log_open := a, log_put := b\<rparr>) ts s = loop n w ts s"
  by (induction n arbitrary: s)
    (simp_all add: loop_body_log_independent split: outcome.splits control.splits)

lemma save_overall_df_log_independent:
  "save_overall_df (w\<lparr>log_open := a, log_put := b\<rparr>) s = save_overall_df w s"
  by (simp add: save_overall_df_def save_to_s3_parquet_def)

lemma make_api_request_log_independent:
  "make_api_request n (w\<lparr>log_open := a, log_put := b\<rparr>) ts s = make_api_request n w ts s"
  by (simp add: make_api_request_def gnat_log_independent loop_log_independent
      save_overall_df_log_independent cong: outcome.case_cong option.case_cong if_cong)

lemma run_script_value:
  "map_option value_of (run_script n w ts) =
   map_option value_of (make_api_request n w ts
      (logger (LogInfo ''HRMS API data extraction started'') init_state))"
  by (simp add: run_script_def upload_log_to_s3_def split: option.splits outcome.splits)

text \<open>
  C9: \<^verbatim>\<open>upload_log_to_s3\<close> returns normally whatever \<^verbatim>\<open>open\<close> and \<^verbatim>\<open>put_object\<close>
  raise, it reports the failure in the log, and what the script returns or raises
  does not depend on whether the log upload fails.
\<close>

theorem upload_log_to_s3_never_raises:
  "value_of (upload_log_to_s3 w s) = Inr () \<and>
   log_records (state_of (upload_log_to_s3 w s)) = log_records s @
     [if log_open w = None \<and> log_put w = None then LogInfo ''Log file uploaded to S3''
      else LogError ''Failed to upload log file to S3''] \<and>
   map_option value_of (run_script n (w\<lparr>log_open := a, log_put := b\<rparr>) ts) =
     map_option value_of (run_script n w ts)"
  by (simp add: run_script_value make_api_request_log_independent)
    (simp add: upload_log_to_s3_def logger_def split: option.splits)

section \<open>One pass of the loop\<close>

lemmas script_defs =
  make_api_request_def run_script_def loop_body_def fetch_page_def request_with_refresh_def
  post_api_def get_new_access_token_def save_overall_df_def save_to_s3_parquet_def
  upload_log_to_s3_def record_path_def rowData_def is_load_complete_def page_df_def
  build_df_def json_of_def bind_exc_def logger_def Let_def

lemmas example_defs =
  mk_world_def token_ok_def token_response_def page_body_def init_state_def loop_start_def
  employee_def

lemmas shape_defs =
  page_carries_def record_container_def record_of_def lacks_record_path_def
  lacks_detail_keys_def

lemma post_api_Response:
  "api_responses w (api_calls s) = Response c body \<Longrightarrow>
   post_api w s = Returned (c, body) (s\<lparr>api_calls := Suc (api_calls s)\<rparr>)"
  by (simp add: post_api_def)

lemma fetch_page_ok:
  "api_responses w (api_calls s) = Response c body \<Longrightarrow> c = 200 \<or> c = 201 \<Longrightarrow>
   fetch_page w s = Returned (Go body)
     (logger (LogInfo ''Request Successful!'') (s\<lparr>api_calls := Suc (api_calls s)\<rparr>))"
  by (auto simp: fetch_page_def request_with_refresh_def post_api_Response)

lemma fetch_page_unchanged_df:
  "overall_df (state_of (fetch_page w s)) = overall_df s"
proof -
  from fetch_page_extends [of s w] obtain rest
    where "overall_df (state_of (fetch_page w s)) = overall_df s @ rest"
    by (auto simp: extends_def)
  moreover have "length (overall_df (state_of (fetch_page w s))) = length (overall_df s)"
  proof -
    have a: "overall_df (state_of (post_api w t)) = overall_df t" for t
      by (simp add: post_api_state)
    have b: "overall_df (state_of (request_with_refresh w s)) = overall_df s"
    proof (cases "post_api w s")
      case (Raised e s1)
      with a [of s] show ?thesis by (simp add: request_with_refresh_def)
    next
      case R1: (Returned r s1)
      with a [of s] have d1: "overall_df s1 = overall_df s" by simp
      let ?s1 = "logger (LogWarning ''Token expired, refreshing...'') s1"
      have d2: "overall_df (state_of (get_new_access_token w ?s1)) = overall_df s"
        by (simp add: gnat_frame logger_def d1)
      show ?thesis
      proof (cases "get_new_access_token w ?s1")
        case (Raised e s2)
        with R1 d1 d2 show ?thesis by (simp add: request_with_refresh_def)
      next
        case R2: (Returned tok s2)
        with d2 have d3: "overall_df s2 = overall_df s" by simp
        with a [of "s2\<lparr>ACCESS_TOKEN := tok\<rparr>"]
        have "overall_df (state_of (post_api w (s2\<lparr>ACCESS_TOKEN := tok\<rparr>))) = overall_df s"
          by simp
        with R1 R2 d1 d3 show ?thesis
          by (cases "post_api w (s2\<lparr>ACCESS_TOKEN := tok\<rparr>)")
            (simp_all add: request_with_refresh_def logger_def)
      qed
    qed
    show ?thesis
    proof (cases "request_with_refresh w s")
      case (Raised e s1)
      with b show ?thesis by (simp add: fetch_page_def)
    next
      case (Returned f s1)
      with b show ?thesis by (cases f) (simp_all add: fetch_page_def logger_def)
    qed
  qed
  ultimately show ?thesis by simp
qed

lemma obj_get_getitem: "obj_get j k = Some v \<Longrightarrow> getitem j k = Inr v"
  by (cases j) simp_all

lemma obj_lacks_getitem: "obj_lacks j k \<Longrightarrow> getitem j k = Inl KeyError"
  by (cases j) simp_all

lemma record_of_rowData: "record_of r d \<Longrightarrow> rowData r = Inr d \<and> is_dict d"
  by (auto simp: record_of_def rowData_def bind_exc_def obj_get_getitem split: option.splits)

lemma rows_of_records_carried:
  "list_all2 record_of records ds \<Longrightarrow> rows_of_records records = Inr ds \<and> list_all is_dict ds"
proof (induction records ds rule: list_all2_induct)
  case Nil
  then show ?case by simp
next
  case (Cons r records d ds)
  with record_of_rowData [OF Cons.hyps(1)] show ?case by (simp add: bind_exc_def)
qed

lemma record_container_path: "record_container body = Some v \<Longrightarrow> record_path body = Inr v"
  by (auto simp: record_container_def record_path_def bind_exc_def json_of_def obj_get_getitem
      split: option.splits)

lemma page_carries_parse:
  assumes "page_carries body ds flag"
  shows "\<exists>records. record_path body = Inr (JArr records) \<and> rows_of_records records = Inr ds \<and>
    list_all is_dict ds \<and> is_load_complete body = Inr flag"
proof -
  from assms obtain v where c: "record_container body = Some v"
    by (cases "record_container body") (simp_all add: page_carries_def)
  with assms obtain records where v: "v = JArr records" and l: "list_all2 record_of records ds"
    by (cases v) (simp_all add: page_carries_def)
  from c obtain j where b: "body = Some j"
    by (cases body) (simp_all add: record_container_def)
  with c obtain kvs where j: "j = JObj kvs"
    by (cases j) (simp_all add: record_container_def)
  from assms b j have "is_load_complete body = Inr flag"
    by (simp add: page_carries_def is_load_complete_def bind_exc_def json_of_def)
  with record_container_path [OF c] v rows_of_records_carried [OF l] show ?thesis by blast
qed

lemma loop_body_page:
  assumes "fetch_page w s = Returned (Go body) s1" and "page_carries body ds flag"
    and "scalar flag"
  shows "loop_body w ts s =
     (if truthy flag \<and> ds = [] then
        Returned (Break LoadComplete)
          (logger (LogInfo ''Data load complete and no more data available, exiting loop.'') s1)
      else if ds \<noteq> [] then
        Returned Continue
          (s1\<lparr>overall_df := overall_df s1 @
             map (\<lambda>d. \<lparr>BasicDetail = d, isLoadCompleted = flag, EXTRACT_TIMESTAMP = ts\<rparr>) ds\<rparr>)
      else Returned Continue (logger (LogWarning ''No data returned in this response.'') s1))"
proof -
  from page_carries_parse [OF assms(2)] obtain records
    where "record_path body = Inr (JArr records)" "rows_of_records records = Inr ds"
      "list_all is_dict ds" "is_load_complete body = Inr flag" by blast
  with assms(1,3) show ?thesis
    by (simp add: loop_body_def build_df_def page_df_def)
qed

text \<open>
  On every other page (a row that is not a dict, a list or a dict as flag) the pass
  follows what pandas does, which the environment gives: when pandas raises, the
  pass raises; when pandas builds a frame with rows, as it does for a list-valued
  flag assigned to an empty frame, the rows are appended and the loop goes on.
\<close>

lemma loop_body_other_frame:
  assumes "fetch_page w s = Returned (Go body) s1" and "record_path body = Inr v"
    and "rowData_list v = Inr rows" and "is_load_complete body = Inr flag"
    and "\<not> (list_all is_dict rows \<and> scalar flag)"
  shows "loop_body w ts s =
     (case pandas_frame w rows flag ts of
        Inl e \<Rightarrow> Raised e s1
      | Inr df \<Rightarrow>
          if truthy flag \<and> df = [] then
            Returned (Break LoadComplete)
              (logger (LogInfo ''Data load complete and no more data available, exiting loop.'') s1)
          else if df \<noteq> [] then Returned Continue (s1\<lparr>overall_df := overall_df s1 @ df\<rparr>)
          else Returned Continue (logger (LogWarning ''No data returned in this response.'') s1))"
proof -
  from assms(5) have "build_df w ts flag rows = pandas_frame w rows flag ts"
    by (auto simp: build_df_def)
  with assms(1-4) show ?thesis
    by (cases "pandas_frame w rows flag ts") (simp_all add: loop_body_def)
qed

text \<open>
  Three pages outside that domain, each in an environment in which pandas does
  what it does on that input. A page without records whose flag is the list
  \<^verbatim>\<open>[1]\<close>: the assignment of line 152 gives the empty frame one row, which is
  appended, and the loop goes on. A page with one record whose flag is the empty
  list: line 152 raises \<^verbatim>\<open>ValueError\<close>. A page whose second \<^verbatim>\<open>BasicDetail\<close> is
  \<^verbatim>\<open>null\<close>: \<^verbatim>\<open>pd.DataFrame\<close> raises at line 150.
\<close>

lemma frame_left_to_pandas_examples:
  "loop_body
     (world_pandas (page_body [] (JArr [JNum 1]))
        (\<lambda>rows flag t. Inr [\<lparr>BasicDetail = JObj [], isLoadCompleted = JNum 1,
           EXTRACT_TIMESTAMP = t\<rparr>]))
     ''ts'' loop_start =
   Returned Continue
     (logger (LogInfo ''Request Successful!'') (loop_start\<lparr>api_calls := 1\<rparr>)
        \<lparr>overall_df := [\<lparr>BasicDetail = JObj [], isLoadCompleted = JNum 1,
           EXTRACT_TIMESTAMP = ''ts''\<rparr>]\<rparr>) \<and>
   loop_body
     (world_pandas (page_body [employee ''a''] (JArr [])) (\<lambda>rows flag t. Inl ValueError))
     ''ts'' loop_start =
   Raised ValueError (logger (LogInfo ''Request Successful!'') (loop_start\<lparr>api_calls := 1\<rparr>)) \<and>
   loop_body
     (world_pandas (page_body [employee ''a'', JNull] (JBool False)) (\<lambda>rows flag t. Inl e))
     ''ts'' loop_start =
   Raised e (logger (LogInfo ''Request Successful!'') (loop_start\<lparr>api_calls := 1\<rparr>))"
  by (simp add: world_pandas_def world_body_def script_defs example_defs)



section \<open>A 401 response\<close>

lemma rwr_401:
  assumes "api_responses w (api_calls s) = Response 401 b"
  shows "request_with_refresh w s =
    (case get_new_access_token w
            (logger (LogWarning ''Token expired, refreshing...'')
               (s\<lparr>api_calls := Suc (api_calls s)\<rparr>)) of
       Raised e s2 \<Rightarrow> Raised e s2
     | Returned tok s2 \<Rightarrow>
         if truthy tok then
           (case post_api w (s2\<lparr>ACCESS_TOKEN := tok\<rparr>) of
              Raised e s3 \<Rightarrow> Raised e s3
            | Returned api_response2 s3 \<Rightarrow> Returned (Go api_response2) s3)
         else
           Returned (Stop RefreshFailed)
             (logger (LogError ''Failed to refresh access token after expiration. Exiting.'')
                (s2\<lparr>ACCESS_TOKEN := tok\<rparr>)))"
  by (simp add: request_with_refresh_def post_api_Response [OF assms])

lemma refresh_state:
  assumes "state_of (get_new_access_token w (logger r (s\<lparr>api_calls := Suc (api_calls s)\<rparr>))) = s2"
  shows "api_calls s2 = Suc (api_calls s) \<and> token_calls s2 = Suc (token_calls s) \<and>
    overall_df s2 = overall_df s \<and> sink s2 = sink s \<and>
    value_of (get_new_access_token w (logger r (s\<lparr>api_calls := Suc (api_calls s)\<rparr>))) =
      value_of (get_new_access_token w s)"
proof -
  let ?s1 = "logger r (s\<lparr>api_calls := Suc (api_calls s)\<rparr>)"
  have "token_calls ?s1 = token_calls s" "api_calls ?s1 = Suc (api_calls s)"
    "overall_df ?s1 = overall_df s" "sink ?s1 = sink s"
    by (simp_all add: logger_def)
  with gnat_frame(1,2,3) [of w ?s1] gnat_token_calls [of w ?s1] gnat_value_cong [of ?s1 s w] assms
  show ?thesis by simp
qed

lemma gnat_value_200:
  "token_responses w (token_calls s) = Response 200 (Some (JObj tkvs)) \<Longrightarrow>
   map_of tkvs ''access_token'' = Some tok \<Longrightarrow> truthy tok \<Longrightarrow>
   value_of (get_new_access_token w s) = Inr tok"
  by (simp add: get_new_access_token_def bind_exc_def json_of_def)

lemma gnat_value_not_200:
  "token_responses w (token_calls s) = Response c b \<Longrightarrow> c \<noteq> 200 \<Longrightarrow>
   value_of (get_new_access_token w s) = Inr JNull"
  by (simp add: get_new_access_token_def)

lemma refresh_raises:
  assumes r: "api_responses w (api_calls s) = Response 401 b"
    and v: "value_of (get_new_access_token w s) = Inl e"
  shows "\<exists>s'. loop (Suc n) w ts s = Some (Raised e s') \<and> api_calls s' = api_calls s + 1 \<and>
    token_calls s' = token_calls s + 1 \<and> overall_df s' = overall_df s"
proof -
  let ?s1 = "logger (LogWarning ''Token expired, refreshing...'') (s\<lparr>api_calls := Suc (api_calls s)\<rparr>)"
  show ?thesis
  proof (cases "get_new_access_token w ?s1")
    case (Returned tok s2)
    then have "state_of (get_new_access_token w ?s1) = s2" by simp
    from refresh_state [OF this] Returned v show ?thesis by simp
  next
    case (Raised e' s2)
    then have "state_of (get_new_access_token w ?s1) = s2" by simp
    from refresh_state [OF this] Raised v
    have e: "e' = e" and st: "api_calls s2 = Suc (api_calls s)"
      "token_calls s2 = Suc (token_calls s)" "overall_df s2 = overall_df s"
      by simp_all
    from Raised have "request_with_refresh w s = Raised e' s2"
      by (simp add: rwr_401 [OF r])
    then have "loop_body w ts s = Raised e' s2"
      by (simp add: loop_body_def fetch_page_def)
    with e st show ?thesis by simp
  qed
qed

lemma refresh_without_credential:
  assumes r: "api_responses w (api_calls s) = Response 401 b"
    and v: "value_of (get_new_access_token w s) = Inr tok" and t: "\<not> truthy tok"
  shows "\<exists>s'. loop (Suc n) w ts s = Some (Returned RefreshFailed s') \<and>
    api_calls s' = api_calls s + 1 \<and> token_calls s' = token_calls s + 1 \<and>
    overall_df s' = overall_df s"
proof -
  let ?s1 = "logger (LogWarning ''Token expired, refreshing...'') (s\<lparr>api_calls := Suc (api_calls s)\<rparr>)"
  show ?thesis
  proof (cases "get_new_access_token w ?s1")
    case (Raised e' s2)
    then have "state_of (get_new_access_token w ?s1) = s2" by simp
    from refresh_state [OF this] Raised v show ?thesis by simp
  next
    case (Returned tok' s2)
    then have "state_of (get_new_access_token w ?s1) = s2" by simp
    from refresh_state [OF this] Returned v
    have e: "tok' = tok" and st: "api_calls s2 = Suc (api_calls s)"
      "token_calls s2 = Suc (token_calls s)" "overall_df s2 = overall_df s"
      by simp_all
    let ?s3 = "logger (LogError ''Failed to refresh access token after expiration. Exiting.'')
                (s2\<lparr>ACCESS_TOKEN := tok\<rparr>)"
    from Returned e t have "request_with_refresh w s = Returned (Stop RefreshFailed) ?s3"
      by (simp add: rwr_401 [OF r])
    then have "loop_body w ts s = Returned (Break RefreshFailed) ?s3"
      by (simp add: loop_body_def fetch_page_def)
    with st show ?thesis by (simp add: logger_def)
  qed
qed

lemma retry_state:
  assumes r: "api_responses w (api_calls s) = Response 401 b"
    and v: "value_of (get_new_access_token w s) = Inr tok" and t: "truthy tok"
  shows "\<exists>s2. request_with_refresh w s =
      (case post_api w (s2\<lparr>ACCESS_TOKEN := tok\<rparr>) of
         Raised e s3 \<Rightarrow> Raised e s3
       | Returned api_response2 s3 \<Rightarrow> Returned (Go api_response2) s3) \<and>
    api_calls s2 = Suc (api_calls s) \<and> token_calls s2 = Suc (token_calls s) \<and>
    overall_df s2 = overall_df s \<and> sink s2 = sink s"
proof -
  let ?s1 = "logger (LogWarning ''Token expired, refreshing...'') (s\<lparr>api_calls := Suc (api_calls s)\<rparr>)"
  show ?thesis
  proof (cases "get_new_access_token w ?s1")
    case (Raised e' s2)
    then have "state_of (get_new_access_token w ?s1) = s2" by simp
    from refresh_state [OF this] Raised v show ?thesis by simp
  next
    case (Returned tok' s2)
    then have "state_of (get_new_access_token w ?s1) = s2" by simp
    from refresh_state [OF this] Returned v
    have e: "tok' = tok" and st: "api_calls s2 = Suc (api_calls s)"
      "token_calls s2 = Suc (token_calls s)" "overall_df s2 = overall_df s" "sink s2 = sink s"
      by simp_all
    from Returned e t have "request_with_refresh w s =
      (case post_api w (s2\<lparr>ACCESS_TOKEN := tok\<rparr>) of
         Raised e s3 \<Rightarrow> Raised e s3
       | Returned api_response2 s3 \<Rightarrow> Returned (Go api_response2) s3)"
      by (simp add: rwr_401 [OF r])
    with st show ?thesis by blast
  qed
qed

lemma retry_response:
  assumes r: "api_responses w (api_calls s) = Response 401 b"
    and v: "value_of (get_new_access_token w s) = Inr tok" and t: "truthy tok"
    and r2: "api_responses w (Suc (api_calls s)) = Response c2 b2"
  shows "\<exists>s3. request_with_refresh w s = Returned (Go (c2, b2)) s3 \<and>
    api_calls s3 = api_calls s + 2 \<and> token_calls s3 = token_calls s + 1 \<and>
    overall_df s3 = overall_df s \<and> sink s3 = sink s \<and> ACCESS_TOKEN s3 = tok"
proof -
  from retry_state [OF r v t] obtain s2
    where q: "request_with_refresh w s =
      (case post_api w (s2\<lparr>ACCESS_TOKEN := tok\<rparr>) of
         Raised e s3 \<Rightarrow> Raised e s3
       | Returned api_response2 s3 \<Rightarrow> Returned (Go api_response2) s3)"
      and st: "api_calls s2 = Suc (api_calls s)" "token_calls s2 = Suc (token_calls s)"
        "overall_df s2 = overall_df s" "sink s2 = sink s"
    by blast
  let ?s3 = "s2\<lparr>ACCESS_TOKEN := tok, api_calls := Suc (Suc (api_calls s))\<rparr>"
  from r2 st have "post_api w (s2\<lparr>ACCESS_TOKEN := tok\<rparr>) = Returned (c2, b2) ?s3"
    by (simp add: post_api_def)
  with q have "request_with_refresh w s = Returned (Go (c2, b2)) ?s3" by simp
  with st show ?thesis by simp
qed

lemma retry_request_fails:
  assumes r: "api_responses w (api_calls s) = Response 401 b"
    and v: "value_of (get_new_access_token w s) = Inr tok" and t: "truthy tok"
    and r2: "api_responses w (Suc (api_calls s)) = RequestFailed"
  shows "\<exists>s'. loop (Suc n) w ts s = Some (Raised RequestException s') \<and>
    api_calls s' = api_calls s + 2 \<and> token_calls s' = token_calls s + 1 \<and>
    overall_df s' = overall_df s"
proof -
  from retry_state [OF r v t] obtain s2
    where q: "request_with_refresh w s =
      (case post_api w (s2\<lparr>ACCESS_TOKEN := tok\<rparr>) of
         Raised e s3 \<Rightarrow> Raised e s3
       | Returned api_response2 s3 \<Rightarrow> Returned (Go api_response2) s3)"
      and st: "api_calls s2 = Suc (api_calls s)" "token_calls s2 = Suc (token_calls s)"
        "overall_df s2 = overall_df s"
    by blast
  let ?s3 = "s2\<lparr>ACCESS_TOKEN := tok, api_calls := Suc (Suc (api_calls s))\<rparr>"
  from r2 st have "post_api w (s2\<lparr>ACCESS_TOKEN := tok\<rparr>) = Raised RequestException ?s3"
    by (simp add: post_api_def)
  with q have "request_with_refresh w s = Raised RequestException ?s3" by simp
  then have "loop_body w ts s = Raised RequestException ?s3"
    by (simp add: loop_body_def fetch_page_def)
  with st show ?thesis by simp
qed

lemma retry_other_status:
  assumes r: "api_responses w (api_calls s) = Response 401 b"
    and v: "value_of (get_new_access_token w s) = Inr tok" and t: "truthy tok"
    and r2: "api_responses w (Suc (api_calls s)) = Response c2 b2"
    and c2: "c2 \<noteq> 200" "c2 \<noteq> 201"
  shows "\<exists>s'. loop (Suc n) w ts s = Some (Returned (HttpError c2) s') \<and>
    api_calls s' = api_calls s + 2 \<and> token_calls s' = token_calls s + 1 \<and>
    overall_df s' = overall_df s"
proof -
  from retry_response [OF r v t r2] obtain s3
    where q: "request_with_refresh w s = Returned (Go (c2, b2)) s3"
      and st: "api_calls s3 = api_calls s + 2" "token_calls s3 = token_calls s + 1"
        "overall_df s3 = overall_df s"
    by blast
  from q c2 have "loop_body w ts s = Returned (Break (HttpError c2)) (logger (LogError ''Error'') s3)"
    by (simp add: loop_body_def fetch_page_def)
  with st show ?thesis by (simp add: logger_def)
qed

lemma obj_lacks_get: "obj_lacks j k \<Longrightarrow> obj_get j k = None"
  by (cases j) simp_all

lemma lacks_record_path_KeyError: "lacks_record_path body \<Longrightarrow> record_path body = Inl KeyError"
  by (auto simp: lacks_record_path_def record_path_def bind_exc_def json_of_def
      obj_get_getitem obj_lacks_getitem obj_lacks_get split: option.splits)

lemma retry_lacks_record_path:
  assumes r: "api_responses w (api_calls s) = Response 401 b"
    and v: "value_of (get_new_access_token w s) = Inr tok" and t: "truthy tok"
    and r2: "api_responses w (Suc (api_calls s)) = Response c2 b2" and c2: "c2 = 200 \<or> c2 = 201"
    and l: "lacks_record_path b2"
  shows "\<exists>s'. loop (Suc n) w ts s = Some (Returned InvalidStructure s') \<and>
    api_calls s' = api_calls s + 2 \<and> token_calls s' = token_calls s + 1 \<and>
    overall_df s' = overall_df s \<and> sink s' = sink s \<and>
    last (log_records s') = LogError ''Invalid response structure''"
proof -
  from retry_response [OF r v t r2] obtain s3
    where q: "request_with_refresh w s = Returned (Go (c2, b2)) s3"
      and st: "api_calls s3 = api_calls s + 2" "token_calls s3 = token_calls s + 1"
        "overall_df s3 = overall_df s" "sink s3 = sink s"
    by blast
  from q c2 have "fetch_page w s = Returned (Go b2) (logger (LogInfo ''Request Successful!'') s3)"
    by (auto simp: fetch_page_def)
  with lacks_record_path_KeyError [OF l]
  have "loop_body w ts s = Returned (Break InvalidStructure)
      (logger (LogError ''Invalid response structure'') (logger (LogInfo ''Request Successful!'') s3))"
    by (simp add: loop_body_def)
  with st show ?thesis by (simp add: logger_def)
qed

lemma retry_page:
  assumes r: "api_responses w (api_calls s) = Response 401 b"
    and v: "value_of (get_new_access_token w s) = Inr tok" and t: "truthy tok"
    and r2: "api_responses w (Suc (api_calls s)) = Response c2 b2" and c2: "c2 = 200 \<or> c2 = 201"
    and p: "page_carries b2 ds flag" "scalar flag"
  shows "value_of (loop_body w ts s) =
      Inr (if truthy flag \<and> ds = [] then Break LoadComplete else Continue) \<and>
    overall_df (state_of (loop_body w ts s)) = overall_df s @
      map (\<lambda>d. \<lparr>BasicDetail = d, isLoadCompleted = flag, EXTRACT_TIMESTAMP = ts\<rparr>) ds \<and>
    api_calls (state_of (loop_body w ts s)) = api_calls s + 2 \<and>
    token_calls (state_of (loop_body w ts s)) = token_calls s + 1 \<and>
    ACCESS_TOKEN (state_of (loop_body w ts s)) = tok"
proof -
  from retry_response [OF r v t r2] obtain s3
    where q: "request_with_refresh w s = Returned (Go (c2, b2)) s3"
      and st: "api_calls s3 = api_calls s + 2" "token_calls s3 = token_calls s + 1"
        "overall_df s3 = overall_df s" "ACCESS_TOKEN s3 = tok"
    by blast
  from q c2 have "fetch_page w s = Returned (Go b2) (logger (LogInfo ''Request Successful!'') s3)"
    by (auto simp: fetch_page_def)
  from loop_body_page [OF this p, of ts] st show ?thesis
    by (simp add: logger_def)
qed

lemma rwr_api_calls:
  "api_calls (state_of (request_with_refresh w s)) \<le> api_calls s + 2"
proof (cases "post_api w s")
  case (Raised e s1)
  with post_api_state [of w s] show ?thesis by (simp add: request_with_refresh_def)
next
  case R1: (Returned r s1)
  with post_api_state [of w s] have a1: "api_calls s1 = Suc (api_calls s)" by simp
  let ?s1 = "logger (LogWarning ''Token expired, refreshing...'') s1"
  have a2: "api_calls (state_of (get_new_access_token w ?s1)) = Suc (api_calls s)"
    by (simp add: gnat_frame logger_def a1)
  show ?thesis
  proof (cases "get_new_access_token w ?s1")
    case (Raised e s2)
    with R1 a1 a2 show ?thesis by (simp add: request_with_refresh_def)
  next
    case R2: (Returned tok s2)
    with a2 have a3: "api_calls s2 = Suc (api_calls s)" by simp
    with post_api_state [of w "s2\<lparr>ACCESS_TOKEN := tok\<rparr>"]
    have "api_calls (state_of (post_api w (s2\<lparr>ACCESS_TOKEN := tok\<rparr>))) = Suc (Suc (api_calls s))"
      by simp
    with R1 R2 a1 a3 show ?thesis
      by (cases "post_api w (s2\<lparr>ACCESS_TOKEN := tok\<rparr>)")
        (simp_all add: request_with_refresh_def logger_def)
  qed
qed

lemma loop_body_api_calls:
  "api_calls (state_of (loop_body w ts s)) \<le> api_calls s + 2"
proof -
  have f: "api_calls (state_of (fetch_page w s)) = api_calls (state_of (request_with_refresh w s))"
  proof (cases "request_with_refresh w s")
    case (Raised e s1)
    then show ?thesis by (simp add: fetch_page_def)
  next
    case (Returned x s1)
    then show ?thesis by (cases x) (simp_all add: fetch_page_def logger_def)
  qed
  have "api_calls (state_of (loop_body w ts s)) = api_calls (state_of (fetch_page w s))"
  proof (cases "fetch_page w s")
    case (Raised e s1)
    then show ?thesis by (simp add: loop_body_def)
  next
    case (Returned x s1)
    then show ?thesis
      by (cases x) (simp_all add: loop_body_def logger_def split: sum.splits)
  qed
  with f rwr_api_calls [of w s] show ?thesis by simp
qed

text \<open>
  C3: when the first response of a pass is a 401, the loop refreshes the token
  once. If the refresh gives a credential (status 200 with a truthy
  \<^verbatim>\<open>access_token\<close>), the same request is sent exactly once more: the pass makes two
  API requests and one token request. When that second response is a 200 or 201
  page carrying the \<^verbatim>\<open>BasicDetail\<close> objects \<open>ds\<close> and a scalar flag, exactly one row
  per record is appended to \<^verbatim>\<open>overall_df\<close>, in order, nothing else. When the second
  response has any other status (a 401 again, a 500), lacks the record path, or the
  second request fails, the loop ends in that pass. When the refresh returns no
  credential (a status other than 200) or raises, the loop ends in that pass
  without a second request. In none of these cases is a further page requested,
  and whatever the responses are, the pass makes one token request and at most two
  API requests.
\<close>

theorem refresh_and_retry_once:
  assumes "api_responses w (api_calls s) = Response 401 b"
  shows
   "(\<forall>tkvs tok c2 b2 ds flag.
       token_responses w (token_calls s) = Response 200 (Some (JObj tkvs)) \<and>
       map_of tkvs ''access_token'' = Some tok \<and> truthy tok \<and>
       api_responses w (Suc (api_calls s)) = Response c2 b2 \<and> (c2 = 200 \<or> c2 = 201) \<and>
       page_carries b2 ds flag \<and> scalar flag \<longrightarrow>
       value_of (loop_body w ts s) =
         Inr (if truthy flag \<and> ds = [] then Break LoadComplete else Continue) \<and>
       overall_df (state_of (loop_body w ts s)) = overall_df s @
         map (\<lambda>d. \<lparr>BasicDetail = d, isLoadCompleted = flag, EXTRACT_TIMESTAMP = ts\<rparr>) ds \<and>
       api_calls (state_of (loop_body w ts s)) = api_calls s + 2 \<and>
       token_calls (state_of (loop_body w ts s)) = token_calls s + 1 \<and>
       ACCESS_TOKEN (state_of (loop_body w ts s)) = tok) \<and>
    (\<forall>tkvs tok c2 b2 n.
       token_responses w (token_calls s) = Response 200 (Some (JObj tkvs)) \<and>
       map_of tkvs ''access_token'' = Some tok \<and> truthy tok \<and>
       api_responses w (Suc (api_calls s)) = Response c2 b2 \<and> c2 \<noteq> 200 \<and> c2 \<noteq> 201 \<longrightarrow>
       (\<exists>s'. loop (Suc n) w ts s = Some (Returned (HttpError c2) s') \<and>
          api_calls s' = api_calls s + 2 \<and> token_calls s' = token_calls s + 1 \<and>
          overall_df s' = overall_df s)) \<and>
    (\<forall>tkvs tok c2 b2 n.
       token_responses w (token_calls s) = Response 200 (Some (JObj tkvs)) \<and>
       map_of tkvs ''access_token'' = Some tok \<and> truthy tok \<and>
       api_responses w (Suc (api_calls s)) = Response c2 b2 \<and> (c2 = 200 \<or> c2 = 201) \<and>
       lacks_record_path b2 \<longrightarrow>
       (\<exists>s'. loop (Suc n) w ts s = Some (Returned InvalidStructure s') \<and>
          api_calls s' = api_calls s + 2 \<and> token_calls s' = token_calls s + 1 \<and>
          overall_df s' = overall_df s)) \<and>
    (\<forall>tkvs tok n.
       token_responses w (token_calls s) = Response 200 (Some (JObj tkvs)) \<and>
       map_of tkvs ''access_token'' = Some tok \<and> truthy tok \<and>
       api_responses w (Suc (api_calls s)) = RequestFailed \<longrightarrow>
       (\<exists>s'. loop (Suc n) w ts s = Some (Raised RequestException s') \<and>
          api_calls s' = api_calls s + 2 \<and> token_calls s' = token_calls s + 1 \<and>
          overall_df s' = overall_df s)) \<and>
    (\<forall>c tb n.
       token_responses w (token_calls s) = Response c tb \<and> c \<noteq> 200 \<longrightarrow>
       (\<exists>s'. loop (Suc n) w ts s = Some (Returned RefreshFailed s') \<and>
          api_calls s' = api_calls s + 1 \<and> token_calls s' = token_calls s + 1 \<and>
          overall_df s' = overall_df s)) \<and>
    (\<forall>e n.
       value_of (get_new_access_token w s) = Inl e \<longrightarrow>
       (\<exists>s'. loop (Suc n) w ts s = Some (Raised e s') \<and>
          api_calls s' = api_calls s + 1 \<and> token_calls s' = token_calls s + 1 \<and>
          overall_df s' = overall_df s)) \<and>
    api_calls (state_of (loop_body w ts s)) \<le> api_calls s + 2 \<and>
    token_calls (state_of (loop_body w ts s)) = token_calls s + 1"
proof (intro conjI allI impI)
  fix tkvs tok c2 b2 ds flag
  assume h: "token_responses w (token_calls s) = Response 200 (Some (JObj tkvs)) \<and>
       map_of tkvs ''access_token'' = Some tok \<and> truthy tok \<and>
       api_responses w (Suc (api_calls s)) = Response c2 b2 \<and> (c2 = 200 \<or> c2 = 201) \<and>
       page_carries b2 ds flag \<and> scalar flag"
  then have v: "value_of (get_new_access_token w s) = Inr tok" by (simp add: gnat_value_200)
  from h retry_page [OF assms v, of c2 b2 ds flag ts]
  show "value_of (loop_body w ts s) =
         Inr (if truthy flag \<and> ds = [] then Break LoadComplete else Continue)"
    "overall_df (state_of (loop_body w ts s)) = overall_df s @
         map (\<lambda>d. \<lparr>BasicDetail = d, isLoadCompleted = flag, EXTRACT_TIMESTAMP = ts\<rparr>) ds"
    "api_calls (state_of (loop_body w ts s)) = api_calls s + 2"
    "token_calls (state_of (loop_body w ts s)) = token_calls s + 1"
    "ACCESS_TOKEN (state_of (loop_body w ts s)) = tok"
    by blast+
next
  fix tkvs tok c2 b2 n
  assume h: "token_responses w (token_calls s) = Response 200 (Some (JObj tkvs)) \<and>
       map_of tkvs ''access_token'' = Some tok \<and> truthy tok \<and>
       api_responses w (Suc (api_calls s)) = Response c2 b2 \<and> c2 \<noteq> 200 \<and> c2 \<noteq> 201"
  then have v: "value_of (get_new_access_token w s) = Inr tok" by (simp add: gnat_value_200)
  from h retry_other_status [OF assms v, of c2 b2 n ts]
  show "\<exists>s'. loop (Suc n) w ts s = Some (Returned (HttpError c2) s') \<and>
          api_calls s' = api_calls s + 2 \<and> token_calls s' = token_calls s + 1 \<and>
          overall_df s' = overall_df s"
    by blast
next
  fix tkvs tok c2 b2 n
  assume h: "token_responses w (token_calls s) = Response 200 (Some (JObj tkvs)) \<and>
       map_of tkvs ''access_token'' = Some tok \<and> truthy tok \<and>
       api_responses w (Suc (api_calls s)) = Response c2 b2 \<and> (c2 = 200 \<or> c2 = 201) \<and>
       lacks_record_path b2"
  then have v: "value_of (get_new_access_token w s) = Inr tok" by (simp add: gnat_value_200)
  from h retry_lacks_record_path [OF assms v, of c2 b2 n ts]
  show "\<exists>s'. loop (Suc n) w ts s = Some (Returned InvalidStructure s') \<and>
          api_calls s' = api_calls s + 2 \<and> token_calls s' = token_calls s + 1 \<and>
          overall_df s' = overall_df s"
    by blast
next
  fix tkvs tok n
  assume h: "token_responses w (token_calls s) = Response 200 (Some (JObj tkvs)) \<and>
       map_of tkvs ''access_token'' = Some tok \<and> truthy tok \<and>
       api_responses w (Suc (api_calls s)) = RequestFailed"
  then have v: "value_of (get_new_access_token w s) = Inr tok" by (simp add: gnat_value_200)
  from h retry_request_fails [OF assms v, of n ts]
  show "\<exists>s'. loop (Suc n) w ts s = Some (Raised RequestException s') \<and>
          api_calls s' = api_calls s + 2 \<and> token_calls s' = token_calls s + 1 \<and>
          overall_df s' = overall_df s"
    by blast
next
  fix c tb n
  assume h: "token_responses w (token_calls s) = Response c tb \<and> c \<noteq> 200"
  then have v: "value_of (get_new_access_token w s) = Inr JNull" by (simp add: gnat_value_not_200)
  from refresh_without_credential [OF assms v, of n ts]
  show "\<exists>s'. loop (Suc n) w ts s = Some (Returned RefreshFailed s') \<and>
          api_calls s' = api_calls s + 1 \<and> token_calls s' = token_calls s + 1 \<and>
          overall_df s' = overall_df s"
    by simp
next
  fix e n
  assume "value_of (get_new_access_token w s) = Inl e"
  from refresh_raises [OF assms this, of n ts]
  show "\<exists>s'. loop (Suc n) w ts s = Some (Raised e s') \<and>
          api_calls s' = api_calls s + 1 \<and> token_calls s' = token_calls s + 1 \<and>
          overall_df s' = overall_df s" .
next
  show "api_calls (state_of (loop_body w ts s)) \<le> api_calls s + 2"
    by (rule loop_body_api_calls)
next
  from assms show "token_calls (state_of (loop_body w ts s)) = token_calls s + 1"
    by (simp add: loop_body_token_calls fetch_page_token_calls rwr_token_calls is_401_def)
qed

theorem refresh_and_retry_once_witness:
  "(value_of (loop_body (world_401 (token_response ''t1'')
        (Response 200 (Some (page_body [employee ''a''] (JBool True))))) ''ts'' loop_start)
      = Inr Continue \<and>
    overall_df (state_of (loop_body (world_401 (token_response ''t1'')
        (Response 200 (Some (page_body [employee ''a''] (JBool True))))) ''ts'' loop_start))
      = [\<lparr>BasicDetail = JObj [(''EmployeeCode'', JStr ''a'')], isLoadCompleted = JBool True,
          EXTRACT_TIMESTAMP = ''ts''\<rparr>] \<and>
    api_calls (state_of (loop_body (world_401 (token_response ''t1'')
        (Response 200 (Some (page_body [employee ''a''] (JBool True))))) ''ts'' loop_start)) = 2 \<and>
    token_calls (state_of (loop_body (world_401 (token_response ''t1'')
        (Response 200 (Some (page_body [employee ''a''] (JBool True))))) ''ts'' loop_start)) = 2 \<and>
    ACCESS_TOKEN (state_of (loop_body (world_401 (token_response ''t1'')
        (Response 200 (Some (page_body [employee ''a''] (JBool True))))) ''ts'' loop_start))
      = JStr ''t1'') \<and>
   (\<exists>s'. loop (Suc 0) (world_401 (token_response ''t1'') (Response 401 None)) ''ts'' loop_start
        = Some (Returned (HttpError 401) s') \<and>
      api_calls s' = 2 \<and> token_calls s' = 2 \<and> overall_df s' = []) \<and>
   (\<exists>s'. loop (Suc 0) (world_401 (token_response ''t1'') (Response 500 None)) ''ts'' loop_start
        = Some (Returned (HttpError 500) s') \<and>
      api_calls s' = 2 \<and> token_calls s' = 2 \<and> overall_df s' = []) \<and>
   (\<exists>s'. loop (Suc 0) (world_401 (token_response ''t1'') (Response 200 (Some (JObj []))))
          ''ts'' loop_start
        = Some (Returned InvalidStructure s') \<and>
      api_calls s' = 2 \<and> token_calls s' = 2 \<and> overall_df s' = []) \<and>
   (\<exists>s'. loop (Suc 0) (world_401 (token_response ''t1'') RequestFailed) ''ts'' loop_start
        = Some (Raised RequestException s') \<and>
      api_calls s' = 2 \<and> token_calls s' = 2 \<and> overall_df s' = []) \<and>
   (\<exists>s'. loop (Suc 0) (world_401 (Response 500 None) RequestFailed) ''ts'' loop_start
        = Some (Returned RefreshFailed s') \<and>
      api_calls s' = 1 \<and> token_calls s' = 2 \<and> overall_df s' = []) \<and>
   (\<exists>s'. loop (Suc 0) (world_401 (Response 200 (Some (JObj []))) RequestFailed) ''ts'' loop_start
        = Some (Raised UnboundLocalError s') \<and>
      api_calls s' = 1 \<and> token_calls s' = 2 \<and> overall_df s' = [])"
proof -
  have evaluated: ?thesis
    by (simp add: world_401_def script_defs example_defs numeral_2_eq_2)
  have first: "api_responses (world_401 refreshed retried) (api_calls loop_start) = Response 401 None"
    for refreshed retried
    by (simp add: world_401_def example_defs)
  have second: "api_responses (world_401 refreshed retried) (Suc (api_calls loop_start)) = retried"
    for refreshed retried
    by (simp add: world_401_def example_defs)
  have token: "token_responses (world_401 (token_response ''t1'') retried) (token_calls loop_start)
      = Response 200 (Some (JObj [(''access_token'', JStr ''t1'')])) \<and>
    map_of [(''access_token'', JStr ''t1'')] ''access_token'' = Some (JStr ''t1'') \<and>
    truthy (JStr ''t1'')"
    for retried
    by (simp add: world_401_def example_defs)
  have start: "api_calls loop_start = 0" "token_calls loop_start = 1" "overall_df loop_start = []"
    by (simp_all add: example_defs)
  note inst = refresh_and_retry_once [OF first, of _ _ "''ts''"]

  let ?b1 = "Some (page_body [employee ''a''] (JBool True))"
  have p1: "(200::int) = 200 \<or> (200::int) = 201" by simp
  have p2: "page_carries ?b1 [employee ''a''] (JBool True) \<and> scalar (JBool True)"
    by (simp add: shape_defs example_defs)
  from inst [of "token_response ''t1''" "Response 200 ?b1", THEN conjunct1, rule_format,
      of "[(''access_token'', JStr ''t1'')]" "JStr ''t1''" 200 ?b1 "[employee ''a'']" "JBool True"]
    token second p1 p2 start
  have c1: "value_of (loop_body (world_401 (token_response ''t1'') (Response 200 ?b1)) ''ts'' loop_start)
      = Inr Continue \<and>
    overall_df (state_of (loop_body (world_401 (token_response ''t1'') (Response 200 ?b1)) ''ts''
        loop_start))
      = [\<lparr>BasicDetail = JObj [(''EmployeeCode'', JStr ''a'')], isLoadCompleted = JBool True,
          EXTRACT_TIMESTAMP = ''ts''\<rparr>] \<and>
    api_calls (state_of (loop_body (world_401 (token_response ''t1'') (Response 200 ?b1)) ''ts''
        loop_start)) = 2 \<and>
    token_calls (state_of (loop_body (world_401 (token_response ''t1'') (Response 200 ?b1)) ''ts''
        loop_start)) = 2 \<and>
    ACCESS_TOKEN (state_of (loop_body (world_401 (token_response ''t1'') (Response 200 ?b1)) ''ts''
        loop_start)) = JStr ''t1''"
    by (simp add: employee_def)

  have q401: "(401::int) \<noteq> 200 \<and> (401::int) \<noteq> 201" by simp
  from inst [of "token_response ''t1''" "Response 401 None", THEN conjunct2, THEN conjunct1,
      rule_format, of "[(''access_token'', JStr ''t1'')]" "JStr ''t1''" 401 None 0]
    token second q401 start
  have c2: "\<exists>s'. loop (Suc 0) (world_401 (token_response ''t1'') (Response 401 None)) ''ts''
        loop_start = Some (Returned (HttpError 401) s') \<and>
      api_calls s' = 2 \<and> token_calls s' = 2 \<and> overall_df s' = []"
    by (simp add: numeral_2_eq_2)

  have q500: "(500::int) \<noteq> 200 \<and> (500::int) \<noteq> 201" by simp
  from inst [of "token_response ''t1''" "Response 500 None", THEN conjunct2, THEN conjunct1,
      rule_format, of "[(''access_token'', JStr ''t1'')]" "JStr ''t1''" 500 None 0]
    token second q500 start
  have c3: "\<exists>s'. loop (Suc 0) (world_401 (token_response ''t1'') (Response 500 None)) ''ts''
        loop_start = Some (Returned (HttpError 500) s') \<and>
      api_calls s' = 2 \<and> token_calls s' = 2 \<and> overall_df s' = []"
    by (simp add: numeral_2_eq_2)

  have l4: "lacks_record_path (Some (JObj []))" by (simp add: shape_defs)
  from inst [of "token_response ''t1''" "Response 200 (Some (JObj []))", THEN conjunct2,
      THEN conjunct2, THEN conjunct1, rule_format,
      of "[(''access_token'', JStr ''t1'')]" "JStr ''t1''" 200 "Some (JObj [])" 0]
    token second p1 l4 start
  have c4: "\<exists>s'. loop (Suc 0) (world_401 (token_response ''t1'') (Response 200 (Some (JObj []))))
        ''ts'' loop_start = Some (Returned InvalidStructure s') \<and>
      api_calls s' = 2 \<and> token_calls s' = 2 \<and> overall_df s' = []"
    by (simp add: numeral_2_eq_2)

  from inst [of "token_response ''t1''" RequestFailed, THEN conjunct2, THEN conjunct2,
      THEN conjunct2, THEN conjunct1, rule_format,
      of "[(''access_token'', JStr ''t1'')]" "JStr ''t1''" 0]
    token second start
  have c5: "\<exists>s'. loop (Suc 0) (world_401 (token_response ''t1'') RequestFailed) ''ts''
        loop_start = Some (Raised RequestException s') \<and>
      api_calls s' = 2 \<and> token_calls s' = 2 \<and> overall_df s' = []"
    by (simp add: numeral_2_eq_2)

  have t6: "token_responses (world_401 (Response 500 None) RequestFailed) (token_calls loop_start)
      = Response 500 None \<and> (500::int) \<noteq> 200"
    by (simp add: world_401_def example_defs)
  from inst [of "Response 500 None" RequestFailed, THEN conjunct2, THEN conjunct2,
      THEN conjunct2, THEN conjunct2, THEN conjunct1, rule_format, of 500 None 0]
    t6 start
  have c6: "\<exists>s'. loop (Suc 0) (world_401 (Response 500 None) RequestFailed) ''ts''
        loop_start = Some (Returned RefreshFailed s') \<and>
      api_calls s' = 1 \<and> token_calls s' = 2 \<and> overall_df s' = []"
    by (simp add: numeral_2_eq_2)

  have t7: "value_of (get_new_access_token (world_401 (Response 200 (Some (JObj []))) RequestFailed)
      loop_start) = Inl UnboundLocalError"
    by (simp add: world_401_def example_defs script_defs)
  from inst [of "Response 200 (Some (JObj []))" RequestFailed, THEN conjunct2, THEN conjunct2,
      THEN conjunct2, THEN conjunct2, THEN conjunct2, THEN conjunct1, rule_format,
      of UnboundLocalError 0]
    t7 start
  have c7: "\<exists>s'. loop (Suc 0) (world_401 (Response 200 (Some (JObj []))) RequestFailed) ''ts''
        loop_start = Some (Raised UnboundLocalError s') \<and>
      api_calls s' = 1 \<and> token_calls s' = 2 \<and> overall_df s' = []"
    by (simp add: numeral_2_eq_2)

  from c1 c2 c3 c4 c5 c6 c7 show ?thesis by blast
qed

section \<open>A response without the record path\<close>

text \<open>
  C7: the claim is that every 2xx response whose JSON body lacks the record path
  ends the run with the logged schema error. A 202 response ends the run by the
  HTTP error branch instead (only 200 and 201 pass line 131), and a 200 response
  whose \<^verbatim>\<open>root\<close> is \<^verbatim>\<open>null\<close> raises a \<^verbatim>\<open>TypeError\<close> that the
  \<^verbatim>\<open>except KeyError\<close> of line 140 does not catch.
\<close>

theorem invalid_structure_counterexample:
  "map_option value_of (make_api_request (Suc 0) world_status_202 ''ts'' init_state)
     = Some (Inr (LoopEnded (HttpError 202))) \<and>
   map_option value_of (make_api_request (Suc 0) world_root_null ''ts'' init_state)
     = Some (Inl TypeError)"
  by (simp add: world_status_202_def world_root_null_def script_defs example_defs)

text \<open>
  C7, as amended: for every response with status 200 or 201 whose JSON body is
  made of objects along \<^verbatim>\<open>root\<close>, \<^verbatim>\<open>EmployeeMaster\<close>, \<^verbatim>\<open>EmployeeMasterData\<close> and
  lacks one of these keys, the loop ends in that pass with the error ``Invalid
  response structure'' logged, whether the response answers the first request of
  the pass or the request repeated after a 401 and a successful refresh: the
  request is not sent again, no further page is requested and \<^verbatim>\<open>overall_df\<close> is
  as it was.
\<close>

theorem invalid_structure_is_fatal:
  "(\<forall>c body n.
      api_responses w (api_calls s) = Response c body \<and> (c = 200 \<or> c = 201) \<and>
      lacks_record_path body \<longrightarrow>
      loop (Suc n) w ts s =
        Some (Returned InvalidStructure
          (logger (LogError ''Invalid response structure'')
             (logger (LogInfo ''Request Successful!'') (s\<lparr>api_calls := Suc (api_calls s)\<rparr>))))) \<and>
   (\<forall>b tkvs tok c body n.
      api_responses w (api_calls s) = Response 401 b \<and>
      token_responses w (token_calls s) = Response 200 (Some (JObj tkvs)) \<and>
      map_of tkvs ''access_token'' = Some tok \<and> truthy tok \<and>
      api_responses w (Suc (api_calls s)) = Response c body \<and> (c = 200 \<or> c = 201) \<and>
      lacks_record_path body \<longrightarrow>
      (\<exists>s'. loop (Suc n) w ts s = Some (Returned InvalidStructure s') \<and>
         api_calls s' = api_calls s + 2 \<and> token_calls s' = token_calls s + 1 \<and>
         overall_df s' = overall_df s \<and> sink s' = sink s \<and>
         last (log_records s') = LogError ''Invalid response structure''))"
proof (intro conjI allI impI)
  fix c body n
  assume h: "api_responses w (api_calls s) = Response c body \<and> (c = 200 \<or> c = 201) \<and>
      lacks_record_path body"
  then have "fetch_page w s = Returned (Go body)
      (logger (LogInfo ''Request Successful!'') (s\<lparr>api_calls := Suc (api_calls s)\<rparr>))"
    using fetch_page_ok [of w s c body] by blast
  moreover from h have "record_path body = Inl KeyError"
    by (simp add: lacks_record_path_KeyError)
  ultimately show "loop (Suc n) w ts s =
        Some (Returned InvalidStructure
          (logger (LogError ''Invalid response structure'')
             (logger (LogInfo ''Request Successful!'') (s\<lparr>api_calls := Suc (api_calls s)\<rparr>))))"
    by (simp add: loop_body_def)
next
  fix b tkvs tok c body n
  assume h: "api_responses w (api_calls s) = Response 401 b \<and>
      token_responses w (token_calls s) = Response 200 (Some (JObj tkvs)) \<and>
      map_of tkvs ''access_token'' = Some tok \<and> truthy tok \<and>
      api_responses w (Suc (api_calls s)) = Response c body \<and> (c = 200 \<or> c = 201) \<and>
      lacks_record_path body"
  then have v: "value_of (get_new_access_token w s) = Inr tok" by (simp add: gnat_value_200)
  from h have r: "api_responses w (api_calls s) = Response 401 b" by simp
  from h retry_lacks_record_path [OF r v, of c body n ts]
  show "\<exists>s'. loop (Suc n) w ts s = Some (Returned InvalidStructure s') \<and>
         api_calls s' = api_calls s + 2 \<and> token_calls s' = token_calls s + 1 \<and>
         overall_df s' = overall_df s \<and> sink s' = sink s \<and>
         last (log_records s') = LogError ''Invalid response structure''"
    by blast
qed

theorem invalid_structure_is_fatal_witness:
  "loop (Suc 0) (world_body (JObj [])) ''ts'' loop_start =
     Some (Returned InvalidStructure
       (logger (LogError ''Invalid response structure'')
          (logger (LogInfo ''Request Successful!'')
             (loop_start\<lparr>api_calls := Suc (api_calls loop_start)\<rparr>)))) \<and>
   loop (Suc 0) (world_body (JObj [(''root'', JObj [])])) ''ts'' loop_start =
     Some (Returned InvalidStructure
       (logger (LogError ''Invalid response structure'')
          (logger (LogInfo ''Request Successful!'')
             (loop_start\<lparr>api_calls := Suc (api_calls loop_start)\<rparr>)))) \<and>
   loop (Suc 0) (world_body (JObj [(''root'', JObj [(''EmployeeMaster'', JObj [])])])) ''ts''
       loop_start =
     Some (Returned InvalidStructure
       (logger (LogError ''Invalid response structure'')
          (logger (LogInfo ''Request Successful!'')
             (loop_start\<lparr>api_calls := Suc (api_calls loop_start)\<rparr>)))) \<and>
   (\<exists>s'. loop (Suc 0)
        (world_401 (token_response ''t1'') (Response 201 (Some (JObj [(''root'', JObj [])]))))
        ''ts'' loop_start = Some (Returned InvalidStructure s') \<and>
      api_calls s' = 2 \<and> token_calls s' = 2 \<and> overall_df s' = [] \<and> sink s' = [] \<and>
      last (log_records s') = LogError ''Invalid response structure'')"
proof -
  have evaluated: ?thesis
    by (simp add: world_body_def world_401_def script_defs example_defs numeral_2_eq_2)
  have direct: "api_responses (world_body body) (api_calls loop_start) = Response 200 (Some body)"
    for body
    by (simp add: world_body_def example_defs)
  have ok: "(200::int) = 200 \<or> (200::int) = 201" "(201::int) = 200 \<or> (201::int) = 201"
    by simp_all
  have l1: "lacks_record_path (Some (JObj []))"
    and l2: "lacks_record_path (Some (JObj [(''root'', JObj [])]))"
    and l3: "lacks_record_path (Some (JObj [(''root'', JObj [(''EmployeeMaster'', JObj [])])]))"
    by (simp_all add: shape_defs)
  note a = invalid_structure_is_fatal [THEN conjunct1, rule_format]
  from a [of "world_body (JObj [])" loop_start 200 "Some (JObj [])" 0 "''ts''"] direct ok l1
  have c1: "loop (Suc 0) (world_body (JObj [])) ''ts'' loop_start =
     Some (Returned InvalidStructure
       (logger (LogError ''Invalid response structure'')
          (logger (LogInfo ''Request Successful!'')
             (loop_start\<lparr>api_calls := Suc (api_calls loop_start)\<rparr>))))"
    by blast
  from a [of "world_body (JObj [(''root'', JObj [])])" loop_start 200
      "Some (JObj [(''root'', JObj [])])" 0 "''ts''"] direct ok l2
  have c2: "loop (Suc 0) (world_body (JObj [(''root'', JObj [])])) ''ts'' loop_start =
     Some (Returned InvalidStructure
       (logger (LogError ''Invalid response structure'')
          (logger (LogInfo ''Request Successful!'')
             (loop_start\<lparr>api_calls := Suc (api_calls loop_start)\<rparr>))))"
    by blast
  from a [of "world_body (JObj [(''root'', JObj [(''EmployeeMaster'', JObj [])])])" loop_start 200
      "Some (JObj [(''root'', JObj [(''EmployeeMaster'', JObj [])])])" 0 "''ts''"] direct ok l3
  have c3: "loop (Suc 0) (world_body (JObj [(''root'', JObj [(''EmployeeMaster'', JObj [])])]))
       ''ts'' loop_start =
     Some (Returned InvalidStructure
       (logger (LogError ''Invalid response structure'')
          (logger (LogInfo ''Request Successful!'')
             (loop_start\<lparr>api_calls := Suc (api_calls loop_start)\<rparr>))))"
    by blast
  let ?w = "world_401 (token_response ''t1'') (Response 201 (Some (JObj [(''root'', JObj [])])))"
  have h: "api_responses ?w (api_calls loop_start) = Response 401 None \<and>
      token_responses ?w (token_calls loop_start) =
        Response 200 (Some (JObj [(''access_token'', JStr ''t1'')])) \<and>
      map_of [(''access_token'', JStr ''t1'')] ''access_token'' = Some (JStr ''t1'') \<and>
      truthy (JStr ''t1'') \<and>
      api_responses ?w (Suc (api_calls loop_start)) =
        Response 201 (Some (JObj [(''root'', JObj [])]))"
    by (simp add: world_401_def example_defs)
  have start: "api_calls loop_start = 0" "token_calls loop_start = 1" "overall_df loop_start = []"
    "sink loop_start = []"
    by (simp_all add: example_defs)
  from invalid_structure_is_fatal [THEN conjunct2, rule_format,
      of ?w loop_start None "[(''access_token'', JStr ''t1'')]" "JStr ''t1''" 201
        "Some (JObj [(''root'', JObj [])])" 0 "''ts''"] h ok l2 start
  have c4: "\<exists>s'. loop (Suc 0) ?w ''ts'' loop_start = Some (Returned InvalidStructure s') \<and>
      api_calls s' = 2 \<and> token_calls s' = 2 \<and> overall_df s' = [] \<and> sink s' = [] \<and>
      last (log_records s') = LogError ''Invalid response structure''"
    by (simp add: numeral_2_eq_2)
  from c1 c2 c3 c4 show ?thesis by blast
qed

section \<open>A record without the expected keys\<close>

lemma getitem_exc: "getitem j k = Inl e \<Longrightarrow> e = KeyError \<or> e = TypeError"
  by (cases j) (auto split: option.splits)

lemma rowData_exc: "rowData r = Inl e \<Longrightarrow> e = KeyError \<or> e = TypeError"
  by (auto simp: rowData_def bind_exc_def split: sum.splits dest: getitem_exc)

lemma lacks_detail_keys_KeyError: "lacks_detail_keys r \<Longrightarrow> rowData r = Inl KeyError"
  by (auto simp: lacks_detail_keys_def rowData_def bind_exc_def obj_get_getitem
      obj_lacks_getitem obj_lacks_get split: option.splits)

lemma rows_of_records_fail:
  "r \<in> set rs \<Longrightarrow> rowData r = Inl e \<Longrightarrow>
   \<exists>e'. rows_of_records rs = Inl e' \<and> (e' = KeyError \<or> e' = TypeError)"
proof (induction rs)
  case Nil
  then show ?case by simp
next
  case (Cons a rs)
  show ?case
  proof (cases "rowData a")
    case (Inl e1)
    with rowData_exc [OF Inl] show ?thesis by (simp add: bind_exc_def)
  next
    case (Inr x)
    with Cons.prems have "r \<in> set rs" by auto
    from Cons.IH [OF this Cons.prems(2)] Inr show ?thesis
      by (auto simp: bind_exc_def)
  qed
qed

lemma loop_body_bad_record:
  assumes "fetch_page w s = Returned (Go body) s1"
    and "record_container body = Some (JArr records)"
    and "r \<in> set records" and "lacks_detail_keys r"
  shows "\<exists>e. loop_body w ts s = Raised e s1 \<and> (e = KeyError \<or> e = TypeError)"
proof -
  from rows_of_records_fail [OF assms(3) lacks_detail_keys_KeyError [OF assms(4)]] obtain e
    where "rows_of_records records = Inl e" and "e = KeyError \<or> e = TypeError" by blast
  with assms(1) record_container_path [OF assms(2)] show ?thesis by (simp add: loop_body_def)
qed

text \<open>
  C10: the extraction of \<^verbatim>\<open>['BasicDetails']['BasicDetail']\<close> from the records is
  outside the \<^verbatim>\<open>try\<close>. When the loop, after any number of passes, fetches a page
  whose record container is a list with a record that lacks \<^verbatim>\<open>BasicDetails\<close>, or
  whose \<^verbatim>\<open>BasicDetails\<close> lacks \<^verbatim>\<open>BasicDetail\<close>, the script ends with the
  exception unhandled: it is not the logged ``Invalid response structure'' exit,
  the sink is not invoked and the log file is not uploaded.
\<close>

theorem record_without_keys_crashes:
  assumes "get_new_access_token w (logger (LogInfo ''HRMS API data extraction started'') init_state)
      = Returned tok s0"
    and "truthy tok"
    and "passes k w ts (s0\<lparr>ACCESS_TOKEN := tok, overall_df := []\<rparr>) = Some s"
    and "fetch_page w s = Returned (Go body) s1"
    and "record_container body = Some (JArr records)"
    and "r \<in> set records" and "lacks_detail_keys r"
  shows "\<exists>e. run_script (k + Suc n) w ts = Some (Raised e s1) \<and> (e = KeyError \<or> e = TypeError) \<and>
    sink s1 = [] \<and> log_uploads s1 = 0 \<and> overall_df s1 = overall_df s"
proof -
  let ?i = "logger (LogInfo ''HRMS API data extraction started'') init_state"
  let ?s = "s0\<lparr>ACCESS_TOKEN := tok, overall_df := []\<rparr>"
  from loop_body_bad_record [OF assms(4-7), of ts] obtain e
    where b: "loop_body w ts s = Raised e s1" and e: "e = KeyError \<or> e = TypeError" by blast
  from loop_passes [OF assms(3), of "Suc n"] b
  have "loop (k + Suc n) w ts ?s = Some (Raised e s1)" by simp
  with assms(1,2) have "make_api_request (k + Suc n) w ts ?i = Some (Raised e s1)"
    by (simp add: make_api_request_def)
  then have r: "run_script (k + Suc n) w ts = Some (Raised e s1)"
    by (simp add: run_script_def)
  from assms(1) gnat_frame(2,4) [of w ?i]
  have "sink s0 = []" "log_uploads s0 = 0" by (simp_all add: logger_def init_state_def)
  with passes_extends [OF assms(3)] have "sink s = []" "log_uploads s = 0"
    by (simp_all add: extends_def)
  with fetch_page_extends [of s w] assms(4) have "sink s1 = []" "log_uploads s1 = 0"
    by (simp_all add: extends_def)
  moreover from fetch_page_unchanged_df [of w s] assms(4) have "overall_df s1 = overall_df s"
    by simp
  ultimately show ?thesis using r e by blast
qed

lemma bad_record_run:
  assumes "lacks_detail_keys bad"
  shows "\<exists>s0 s body s1.
    get_new_access_token (world_bad_record bad)
        (logger (LogInfo ''HRMS API data extraction started'') init_state)
      = Returned (JStr ''t0'') s0 \<and>
    passes (Suc 0) (world_bad_record bad) ''ts'' (s0\<lparr>ACCESS_TOKEN := JStr ''t0'', overall_df := []\<rparr>)
      = Some s \<and>
    overall_df s = [\<lparr>BasicDetail = JObj [(''EmployeeCode'', JStr ''a'')],
        isLoadCompleted = JBool False, EXTRACT_TIMESTAMP = ''ts''\<rparr>] \<and>
    fetch_page (world_bad_record bad) s = Returned (Go body) s1 \<and>
    record_container body =
      Some (JArr [JObj [(''BasicDetails'', JObj [(''BasicDetail'', employee ''b'')])], bad])"
  by (simp add: world_bad_record_def script_defs example_defs shape_defs)

theorem record_without_keys_crashes_witness:
  "(\<exists>s1. run_script (Suc 0 + Suc 0) (world_bad_record (JObj [])) ''ts''
        = Some (Raised KeyError s1) \<and>
      sink s1 = [] \<and> log_uploads s1 = 0 \<and>
      overall_df s1 = [\<lparr>BasicDetail = JObj [(''EmployeeCode'', JStr ''a'')],
        isLoadCompleted = JBool False, EXTRACT_TIMESTAMP = ''ts''\<rparr>]) \<and>
   (\<exists>s1. run_script (Suc 0 + Suc 0) (world_bad_record (JObj [(''BasicDetails'', JObj [])])) ''ts''
        = Some (Raised KeyError s1) \<and>
      sink s1 = [] \<and> log_uploads s1 = 0 \<and>
      overall_df s1 = [\<lparr>BasicDetail = JObj [(''EmployeeCode'', JStr ''a'')],
        isLoadCompleted = JBool False, EXTRACT_TIMESTAMP = ''ts''\<rparr>])"
proof -
  have evaluated: ?thesis
    by (simp add: world_bad_record_def script_defs example_defs)
  have crash: "\<exists>s1. run_script (Suc 0 + Suc 0) (world_bad_record bad) ''ts''
        = Some (Raised KeyError s1) \<and>
      sink s1 = [] \<and> log_uploads s1 = 0 \<and>
      overall_df s1 = [\<lparr>BasicDetail = JObj [(''EmployeeCode'', JStr ''a'')],
        isLoadCompleted = JBool False, EXTRACT_TIMESTAMP = ''ts''\<rparr>]"
    if l: "lacks_detail_keys bad"
      and v: "map_option value_of (run_script (Suc 0 + Suc 0) (world_bad_record bad) ''ts'')
        = Some (Inl KeyError)"
    for bad
  proof -
    let ?w = "world_bad_record bad"
    let ?records = "[JObj [(''BasicDetails'', JObj [(''BasicDetail'', employee ''b'')])], bad]"
    from bad_record_run [OF l] obtain s0 s body s1
      where g: "get_new_access_token ?w
          (logger (LogInfo ''HRMS API data extraction started'') init_state)
          = Returned (JStr ''t0'') s0"
        and p: "passes (Suc 0) ?w ''ts'' (s0\<lparr>ACCESS_TOKEN := JStr ''t0'', overall_df := []\<rparr>)
          = Some s"
        and d: "overall_df s = [\<lparr>BasicDetail = JObj [(''EmployeeCode'', JStr ''a'')],
          isLoadCompleted = JBool False, EXTRACT_TIMESTAMP = ''ts''\<rparr>]"
        and f: "fetch_page ?w s = Returned (Go body) s1"
        and c: "record_container body = Some (JArr ?records)"
      by blast
    have t: "truthy (JStr ''t0'')" by simp
    have m: "bad \<in> set ?records" by simp
    from record_without_keys_crashes [OF g t p f c m l, of 0] obtain e
      where a: "run_script (Suc 0 + Suc 0) ?w ''ts'' = Some (Raised e s1)"
        and b: "sink s1 = []" "log_uploads s1 = 0" "overall_df s1 = overall_df s"
      by blast
    from a v have "e = KeyError" by simp
    with a b d show ?thesis by simp
  qed
  have l1: "lacks_detail_keys (JObj [])"
    and l2: "lacks_detail_keys (JObj [(''BasicDetails'', JObj [])])"
    by (simp_all add: shape_defs)
  have v1: "map_option value_of (run_script (Suc 0 + Suc 0) (world_bad_record (JObj [])) ''ts'')
      = Some (Inl KeyError)"
    by (simp add: world_bad_record_def script_defs example_defs)
  have v2: "map_option value_of
      (run_script (Suc 0 + Suc 0) (world_bad_record (JObj [(''BasicDetails'', JObj [])])) ''ts'')
      = Some (Inl KeyError)"
    by (simp add: world_bad_record_def script_defs example_defs)
  from crash [OF l1 v1] crash [OF l2 v2] show ?thesis by blast
qed

section \<open>The flush after the loop\<close>








end
